theory Spec2Isabelle
  imports Complex_Main
begin

section \<open>Evaluation harness of a facial-expression classifier (evaluate.py)\<close>

text \<open>
  The script evaluates a trained classifier on three data splits. The model follows the
  script function by function: \<open>correct_count\<close>, \<open>draw_confusion_matrix\<close>, \<open>evaluate\<close>
  and \<open>main\<close>.

  Conventions of the embedding.
  \<^item> A tensor is its shape together with its elements in row-major order, the layout of a
    contiguous tensor. Scores, losses and pixels are real numbers: rounding of floating
    point arithmetic is not modelled, and neither are NaN and infinities.
  \<^item> An exception is a value \<open>Inl e\<close> of a sum type; nothing in the script catches one.
  \<^item> Console output and calls of the plotting library are recorded as a list of events
    in program order. A computation returns the events it emitted together with its
    result or its exception, since output written before an exception stays written.
  \<^item> The network, the loss function, the checkpoint loader and the dataloader factory
    are not part of the script; they are parameters of the model.
  \<^item> Moving a tensor to the compute device does not change its value and is omitted.
\<close>

subsection \<open>Exceptions\<close>

datatype error =
    ValueError
  | RuntimeError
  | IndexError
  | ZeroDivisionError
  | KeyError
  | OSError

definition bind_err :: "error + 'a \<Rightarrow> ('a \<Rightarrow> error + 'b) \<Rightarrow> error + 'b" where
  "bind_err m f = (case m of Inl e \<Rightarrow> Inl e | Inr x \<Rightarrow> f x)"

subsection \<open>Tensors\<close>

record tensor =
  shape :: "nat list"
  data :: "real list"

definition numel :: "tensor \<Rightarrow> nat" where
  "numel t = prod_list (shape t)"

definition wf_tensor :: "tensor \<Rightarrow> bool" where
  "wf_tensor t \<longleftrightarrow> length (data t) = numel t"

text \<open>
  \<open>Tensor.view\<close>: the requested sizes are non-negative, or \<open>-1\<close> for one size that is
  inferred from the number of elements. The library refuses (RuntimeError) a size below
  \<open>-1\<close>, a second \<open>-1\<close>, a product of sizes that differs from the number of elements,
  and an inferred size whose known sizes multiply to zero or do not divide the number of
  elements.
\<close>

definition infer_size :: "int list \<Rightarrow> nat \<Rightarrow> error + nat list" where
  "infer_size dims n =
     (if list_ex (\<lambda>d. d < - 1) dims then Inl RuntimeError
      else if 1 < length (filter (\<lambda>d. d = - 1) dims) then Inl RuntimeError
      else
        let newsize = prod_list (map nat (filter (\<lambda>d. 0 \<le> d) dims))
        in if list_ex (\<lambda>d. d = - 1) dims
           then (if 0 < newsize \<and> n mod newsize = 0
                 then Inr (map (\<lambda>d. if d = - 1 then n div newsize else nat d) dims)
                 else Inl RuntimeError)
           else (if n = newsize then Inr (map nat dims) else Inl RuntimeError))"

definition view :: "tensor \<Rightarrow> int list \<Rightarrow> error + tensor" where
  "view t dims = bind_err (infer_size dims (numel t)) (\<lambda>s. Inr (t\<lparr>shape := s\<rparr>))"

text \<open>
  \<open>torch.sum(t, dim=1)\<close>: a tensor of shape \<open>a # b # rest\<close> becomes one of shape
  \<open>a # rest\<close>; entry \<open>(i, j)\<close> is the sum over \<open>c < b\<close> of the entries \<open>(i, c, j)\<close>,
  where \<open>j\<close> ranges over the \<open>prod_list rest\<close> trailing positions. A tensor of fewer
  than two dimensions has no dimension 1 (IndexError).
\<close>

definition sum_dim1 :: "tensor \<Rightarrow> error + tensor" where
  "sum_dim1 t =
     (case shape t of
        a # b # rest \<Rightarrow>
          let m = prod_list rest
          in Inr \<lparr>shape = a # rest,
                  data = map (\<lambda>p. \<Sum>c\<leftarrow>[0..<b]. data t ! (((p div m) * b + c) * m + p mod m))
                             [0..<a * m]\<rparr>
      | _ \<Rightarrow> Inl IndexError)"

text \<open>Division of every element by a Python integer.\<close>

definition div_scalar :: "tensor \<Rightarrow> nat \<Rightarrow> tensor" where
  "div_scalar t n = t\<lparr>data := map (\<lambda>x. x / real n) (data t)\<rparr>"

subsection \<open>The forward pass of one batch (evaluate, lines 88 to 100)\<close>

type_synonym net = "tensor \<Rightarrow> error + tensor"

text \<open>
  With \<open>Ncrop\<close> the shape is unpacked into exactly five names (ValueError otherwise), the
  batch and crop dimensions are fused by \<open>view(-1, c, h, w)\<close>, the network runs once, and
  the scores are viewed as \<open>(bs, ncrops, -1)\<close>, summed over dimension 1 and divided by
  \<open>ncrops\<close>. The division is only reached with \<open>ncrops > 0\<close>: the second view fails when
  \<open>bs * ncrops = 0\<close>.
\<close>

definition forward :: "net \<Rightarrow> bool \<Rightarrow> tensor \<Rightarrow> error + tensor" where
  "forward net Ncrop inputs =
     (if Ncrop then
        (if length (shape inputs) = 5 then
           let bs = shape inputs ! 0; ncrops = shape inputs ! 1; c = shape inputs ! 2;
               h = shape inputs ! 3; w = shape inputs ! 4
           in bind_err (view inputs [- 1, int c, int h, int w]) (\<lambda>fused.
              bind_err (net fused) (\<lambda>outputs.
              bind_err (view outputs [int bs, int ncrops, - 1]) (\<lambda>outputs3.
              bind_err (sum_dim1 outputs3) (\<lambda>summed.
              Inr (div_scalar summed ncrops)))))
         else Inl ValueError)
      else net inputs)"

subsection \<open>Top-k correct counts (correct_count, lines 24 to 36)\<close>

text \<open>
  The rows of a score matrix of shape \<open>[n, k]\<close>, and the library reductions on one row.
  \<open>torch.max\<close> along a dimension returns the index of the first maximal value.
  \<open>Tensor.topk\<close> returns the indices of the largest values in descending order of value
  and leaves the choice among equal values to the implementation, so the function is a
  parameter of the model: \<open>tk n xs\<close> are the \<open>n\<close> indices it returns for the row \<open>xs\<close>.
  \<open>topk_contract\<close> is what the library documents of it for \<open>n\<close> not above the length of
  the row: \<open>n\<close> distinct positions of the row, in descending order of their values, none
  of which holds a smaller value than a position left out.
\<close>

type_synonym topk_fn = "nat \<Rightarrow> real list \<Rightarrow> nat list"

definition topk_contract :: "topk_fn \<Rightarrow> bool" where
  "topk_contract tk \<longleftrightarrow>
     (\<forall>n xs. n \<le> length xs \<longrightarrow>
        length (tk n xs) = n \<and> distinct (tk n xs) \<and>
        (\<forall>a\<in>set (tk n xs). a < length xs) \<and>
        (\<forall>p q. p \<le> q \<and> q < n \<longrightarrow> xs ! (tk n xs ! q) \<le> xs ! (tk n xs ! p)) \<and>
        (\<forall>j<length xs. j \<notin> set (tk n xs) \<longrightarrow> (\<forall>a\<in>set (tk n xs). xs ! j \<le> xs ! a)))"

definition rows :: "nat \<Rightarrow> nat \<Rightarrow> real list \<Rightarrow> real list list" where
  "rows n k d = map (\<lambda>i. take k (drop (i * k) d)) [0..<n]"

definition argmax :: "real list \<Rightarrow> nat" where
  "argmax xs = length (takeWhile (\<lambda>x. x < fold max xs (hd xs)) xs)"

text \<open>
  \<open>target.view(1, -1).expand_as(pred)\<close>: a target of as many labels as the batch has
  samples is repeated along the rows; a single label is broadcast to every sample; any
  other length cannot be expanded (RuntimeError).
\<close>

definition expand_target :: "int list \<Rightarrow> nat \<Rightarrow> error + int list" where
  "expand_target target n =
     (if length target = n then Inr target
      else if length target = 1 then Inr (replicate n (target ! 0))
      else Inl RuntimeError)"

text \<open>
  \<open>output.topk(maxk, 1, True, True)\<close> needs a dimension 1 (IndexError for fewer than two
  dimensions) of at least \<open>maxk\<close> entries (RuntimeError), and \<open>pred.t()\<close> accepts at
  most two dimensions (RuntimeError). \<open>pred_t ! r ! i\<close> is the class ranked \<open>r\<close> for
  sample \<open>i\<close>; \<open>correct[:k]\<close> keeps the first \<open>k\<close> ranks, and the sum counts the entries
  that are true. \<open>max\<close> of an empty tuple of ranks is a ValueError.
\<close>

definition correct_count :: "topk_fn \<Rightarrow> tensor \<Rightarrow> int list \<Rightarrow> nat list \<Rightarrow> error + nat list" where
  "correct_count tk output target topk =
     (if topk = [] then Inl ValueError
      else
        let maxk = fold max topk (hd topk)
        in if length (shape output) < 2 then Inl IndexError
           else if 2 < length (shape output) then Inl RuntimeError
           else
             let n = shape output ! 0; k = shape output ! 1
             in if k < maxk then Inl RuntimeError
                else
                  let pred = map (tk maxk) (rows n k (data output));
                      pred_t = map (\<lambda>r. map (\<lambda>p. p ! r) pred) [0..<maxk]
                  in bind_err (expand_target target n) (\<lambda>tgt.
                       let correct = map (\<lambda>row. map (\<lambda>(p, y). int p = y) (zip row tgt)) pred_t
                       in Inr (map (\<lambda>k. length (filter id (concat (take k correct)))) topk)))"

text \<open>
  \<open>torch.max(outputs.data, 1)\<close>. In \<open>evaluate\<close> it runs after \<open>correct_count\<close> has
  accepted the scores, so they are a matrix with at least two columns; the other
  branches stand for the library's refusal of a missing or empty dimension 1 and of the
  \<open>item()\<close> of a non-scalar.
\<close>

definition max_dim1 :: "tensor \<Rightarrow> error + nat list" where
  "max_dim1 t =
     (if length (shape t) < 2 then Inl IndexError
      else if 2 < length (shape t) then Inl RuntimeError
      else if shape t ! 1 = 0 then Inl IndexError
      else Inr (map argmax (rows (shape t ! 0) (shape t ! 1) (data t))))"

subsection \<open>Metrics of the label sequences (library calls of evaluate)\<close>

text \<open>
  The metrics library refuses label sequences of different lengths (ValueError). For
  single-label classification the micro-averaged precision, recall and F1 score all are
  the fraction of samples whose prediction equals the true label. The confusion matrix
  is indexed by the labels that occur in either sequence, in ascending order; entry
  \<open>(a, b)\<close> counts the samples of true label \<open>a\<close> predicted as \<open>b\<close>.
\<close>

definition micro_score :: "int list \<Rightarrow> int list \<Rightarrow> error + real" where
  "micro_score y_true y_pred =
     (if length y_true \<noteq> length y_pred then Inl ValueError
      else Inr (real (length (filter (\<lambda>(t, p). t = p) (zip y_true y_pred)))
                / real (length y_true)))"

definition unique_labels :: "int list \<Rightarrow> int list \<Rightarrow> int list" where
  "unique_labels y_true y_pred = sort (remdups (y_true @ y_pred))"

definition confusion_counts :: "int list \<Rightarrow> int list \<Rightarrow> error + nat list list" where
  "confusion_counts y_true y_pred =
     (if length y_true \<noteq> length y_pred then Inl ValueError
      else
        let labels = unique_labels y_true y_pred
        in Inr (map (\<lambda>a. map (\<lambda>b. length (filter (\<lambda>(t, p). t = a \<and> p = b) (zip y_true y_pred)))
                              labels) labels))"

subsection \<open>Output events\<close>

text \<open>
  \<open>Print s\<close> is a printed line; \<open>Printf fmt x\<close> a line printed from the format string
  \<open>fmt\<close> and the number \<open>x\<close> (the six printed decimals are not modelled);
  \<open>PrintMatrix\<close> the printed matrix of counts. The other events are the calls of the
  plotting library, with their arguments.
\<close>

datatype event =
    Print string
  | Printf string real
  | PrintMatrix string "nat list list"
  | Imshow "real list list" string
  | Title string
  | Xlabel string
  | Ylabel string
  | Yticks "nat list" "string list"
  | Xticks "nat list" "string list" nat
  | TightLayout
  | Colorbar
  | PlotText nat nat real "nat \<times> nat \<times> nat"
  | Savefig string nat
  | Clf

type_synonym 'a res = "event list \<times> (error + 'a)"

definition bind_res :: "'a res \<Rightarrow> ('a \<Rightarrow> 'b res) \<Rightarrow> 'b res" where
  "bind_res m f =
     (case m of
        (tr, Inl e) \<Rightarrow> (tr, Inl e)
      | (tr, Inr x) \<Rightarrow> (case f x of (tr', r) \<Rightarrow> (tr @ tr', r)))"

definition lift_err :: "error + 'a \<Rightarrow> 'a res" where
  "lift_err m = ([], m)"

definition emit :: "event list \<Rightarrow> unit res" where
  "emit evs = (evs, Inr ())"

subsection \<open>The evaluation loop (evaluate, lines 74 to 130)\<close>

type_synonym batch = "tensor \<times> int list"
type_synonym loss_fn = "tensor \<Rightarrow> int list \<Rightarrow> error + real"

record counters =
  loss_tr :: real
  n_samples :: real
  y_pred :: "int list"
  y_gt :: "int list"
  correct_count1 :: real
  correct_count2 :: real

definition init_counters :: counters where
  "init_counters = \<lparr>loss_tr = 0, n_samples = 0, y_pred = [], y_gt = [],
                     correct_count1 = 0, correct_count2 = 0\<rparr>"

text \<open>The body of the loop over the batches, lines 85 to 116.\<close>

definition step :: "topk_fn \<Rightarrow> net \<Rightarrow> loss_fn \<Rightarrow> bool \<Rightarrow> counters \<Rightarrow> batch \<Rightarrow> error + counters" where
  "step tk net loss_fn Ncrop s b =
     (case b of (inputs, labels) \<Rightarrow>
        bind_err (forward net Ncrop inputs) (\<lambda>outputs.
        bind_err (loss_fn outputs labels) (\<lambda>loss.
        bind_err (correct_count tk outputs labels [1, 2]) (\<lambda>counts.
        bind_err (max_dim1 outputs) (\<lambda>preds.
        Inr \<lparr>loss_tr = loss_tr s + loss,
             n_samples = n_samples s + real (length labels),
             y_pred = y_pred s @ map int preds,
             y_gt = y_gt s @ labels,
             correct_count1 = correct_count1 s + real (counts ! 0),
             correct_count2 = correct_count2 s + real (counts ! 1)\<rparr>)))))"

fun run_batches :: "topk_fn \<Rightarrow> net \<Rightarrow> loss_fn \<Rightarrow> bool \<Rightarrow> counters \<Rightarrow> batch list \<Rightarrow> error + counters" where
  "run_batches tk net loss_fn Ncrop s [] = Inr s"
| "run_batches tk net loss_fn Ncrop s (b # bs) =
     (case step tk net loss_fn Ncrop s b of
        Inl e \<Rightarrow> Inl e
      | Inr s' \<Rightarrow> run_batches tk net loss_fn Ncrop s' bs)"

text \<open>Python's true division of floats raises ZeroDivisionError on a zero divisor.\<close>

definition py_div :: "real \<Rightarrow> real \<Rightarrow> error + real" where
  "py_div a b = (if b = 0 then Inl ZeroDivisionError else Inr (a / b))"

definition separator :: string where
  "separator = replicate 56 (CHR ''-'')"

definition evaluate :: "topk_fn \<Rightarrow> net \<Rightarrow> batch list \<Rightarrow> loss_fn \<Rightarrow> bool \<Rightarrow> (int list \<times> int list) res" where
  "evaluate tk net dataloader loss_fn Ncrop =
     bind_res (lift_err (run_batches tk net loss_fn Ncrop init_counters dataloader)) (\<lambda>s.
     bind_res (lift_err (py_div (100 * correct_count1 s) (n_samples s))) (\<lambda>acc1.
     bind_res (lift_err (py_div (100 * correct_count2 s) (n_samples s))) (\<lambda>acc2.
     bind_res (lift_err (py_div (loss_tr s) (n_samples s))) (\<lambda>loss.
     bind_res (emit [Print separator,
                     Printf ''Top 1 Accuracy: %2.6f %%'' acc1,
                     Printf ''Top 2 Accuracy: %2.6f %%'' acc2,
                     Printf ''Loss: %2.6f'' loss]) (\<lambda>_.
     bind_res (lift_err (micro_score (y_gt s) (y_pred s))) (\<lambda>precision.
     bind_res (emit [Printf ''Precision: %2.6f'' precision]) (\<lambda>_.
     bind_res (lift_err (micro_score (y_gt s) (y_pred s))) (\<lambda>recall.
     bind_res (emit [Printf ''Recall: %2.6f'' recall]) (\<lambda>_.
     bind_res (lift_err (micro_score (y_gt s) (y_pred s))) (\<lambda>f1.
     bind_res (emit [Printf ''F1 Score: %2.6f'' f1]) (\<lambda>_.
     bind_res (lift_err (confusion_counts (y_gt s) (y_pred s))) (\<lambda>cm.
     bind_res (emit [PrintMatrix ''Confusion Matrix:'' cm]) (\<lambda>_.
     ([], Inr (y_gt s, y_pred s)))))))))))))))"

subsection \<open>The confusion matrix renderer (draw_confusion_matrix, lines 39 to 71)\<close>

text \<open>
  \<open>confusion_matrix(..., normalize='true')\<close> divides every row of counts by its sum; the
  library replaces the undefined quotients of a row without samples by zero before it
  returns the matrix.
\<close>

definition normalize_row :: "nat list \<Rightarrow> real list" where
  "normalize_row row = map (\<lambda>c. if sum_list row = 0 then 0 else real c / real (sum_list row)) row"

definition confusion_matrix_true :: "int list \<Rightarrow> int list \<Rightarrow> error + real list list" where
  "confusion_matrix_true label_true label_pred =
     bind_err (confusion_counts label_true label_pred) (\<lambda>cm. Inr (map normalize_row cm))"

text \<open>\<open>cm[j, i]\<close>: an index outside the matrix is an IndexError.\<close>

definition cm_index :: "real list list \<Rightarrow> nat \<Rightarrow> nat \<Rightarrow> error + real" where
  "cm_index cm j i =
     (if j < length cm \<and> i < length (cm ! j) then Inr (cm ! j ! i) else Inl IndexError)"

text \<open>
  \<open>float(format('%.2f' % x))\<close>: the value rounded to two decimals, a tie going to the even
  neighbour.
\<close>

definition round_half_even :: "real \<Rightarrow> int" where
  "round_half_even x =
     (let f = \<lfloor>x\<rfloor>; d = x - of_int f
      in if d < 1 / 2 then f else if 1 / 2 < d then f + 1 else if even f then f else f + 1)"

definition round2 :: "real \<Rightarrow> real" where
  "round2 x = of_int (round_half_even (x * 100)) / 100"

text \<open>
  The nested loop of lines 63 to 67 over the cells \<open>(i, j)\<close>, \<open>i\<close> outermost: white text on
  the diagonal, black elsewhere. The cells drawn before an IndexError stay drawn.
\<close>

fun draw_cells :: "real list list \<Rightarrow> (nat \<times> nat) list \<Rightarrow> unit res" where
  "draw_cells cm [] = ([], Inr ())"
| "draw_cells cm ((i, j) # ps) =
     bind_res (lift_err (cm_index cm j i)) (\<lambda>v.
     bind_res (emit [PlotText i j (round2 v) (if i = j then (1, 1, 1) else (0, 0, 0))]) (\<lambda>_.
     draw_cells cm ps))"

definition cells :: "nat \<Rightarrow> (nat \<times> nat) list" where
  "cells n = concat (map (\<lambda>i. map (\<lambda>j. (i, j)) [0..<n]) [0..<n])"

definition draw_confusion_matrix ::
  "int list \<Rightarrow> int list \<Rightarrow> string list \<Rightarrow> string \<Rightarrow> string option \<Rightarrow> nat \<Rightarrow> unit res" where
  "draw_confusion_matrix label_true label_pred label_name title pdf_save_path dpi =
     bind_res (lift_err (confusion_matrix_true label_true label_pred)) (\<lambda>cm.
     bind_res (emit [Imshow cm ''Blues'',
                     Title title,
                     Xlabel ''Predict label'',
                     Ylabel ''Truth label'',
                     Yticks [0..<length label_name] label_name,
                     Xticks [0..<length label_name] label_name 45,
                     TightLayout,
                     Colorbar]) (\<lambda>_.
     bind_res (draw_cells cm (cells (length label_name))) (\<lambda>_.
     (case pdf_save_path of
        None \<Rightarrow> ([], Inr ())
      | Some path \<Rightarrow> emit [Savefig path dpi]))))"

subsection \<open>The orchestrator (parser, lines 15 to 21, and main, lines 132 to 178)\<close>

text \<open>
  The parsed command line. \<open>batch_size\<close> and \<open>seed\<close> are parsed as integers,
  \<open>Ncrop\<close> is the truth value of the evaluated flag.
\<close>

record args =
  batch_size :: int
  seed :: int
  data_path :: string
  checkpoint :: string
  arch :: string
  Ncrop :: bool

definition default_args :: args where
  "default_args = \<lparr>batch_size = 128, seed = 0, data_path = ''./fer2013.csv'',
                    checkpoint = ''./best_checkpoint.tar'', arch = ''ResNet18'',
                    Ncrop = True\<rparr>"

text \<open>
  What the script imports and does not define: the model factory \<open>get_model\<close>, the text
  that printing a model writes, \<open>torch.load\<close> (a dictionary), \<open>load_state_dict\<close>, the
  forward function of a model in inference mode, the dataloader factory
  \<open>get_dataloaders\<close>, called with its \<open>augment\<close> argument only, the cross-entropy
  loss, and the library's \<open>topk\<close>.
\<close>

record ('m, 'sd) env =
  get_model :: "string \<Rightarrow> error + 'm"
  show_model :: "'m \<Rightarrow> string"
  torch_load :: "string \<Rightarrow> error + (string \<rightharpoonup> 'sd)"
  load_state_dict :: "'m \<Rightarrow> 'sd \<Rightarrow> error + 'm"
  run_model :: "'m \<Rightarrow> net"
  get_dataloaders :: "bool \<Rightarrow> error + (batch list \<times> batch list \<times> batch list)"
  cross_entropy :: loss_fn
  tensor_topk :: topk_fn

definition lookup_key :: "('k \<rightharpoonup> 'v) \<Rightarrow> 'k \<Rightarrow> error + 'v" where
  "lookup_key m k = (case m k of None \<Rightarrow> Inl KeyError | Some v \<Rightarrow> Inr v)"

definition main :: "args \<Rightarrow> ('m, 'sd) env \<Rightarrow> unit res" where
  "main a env =
     bind_res (lift_err (get_model env (arch a))) (\<lambda>model.
     bind_res (emit [Print (show_model env model)]) (\<lambda>_.
     bind_res (lift_err (torch_load env (checkpoint a))) (\<lambda>ckpt.
     bind_res (lift_err (lookup_key ckpt ''model_state_dict'')) (\<lambda>sd.
     bind_res (lift_err (load_state_dict env model sd)) (\<lambda>model.
     bind_res (lift_err (get_dataloaders env False)) (\<lambda>(train_loader, val_loader, test_loader).
     bind_res (emit [Print ''Train'']) (\<lambda>_.
     bind_res (evaluate (tensor_topk env) (run_model env model) train_loader (cross_entropy env) (Ncrop a))
       (\<lambda>(y_gt, y_pred).
     bind_res (draw_confusion_matrix y_gt y_pred [''Angry'', ''Happy'', ''Sad'', ''Neutral'']
                 ''Confusion Matrix on Training Set''
                 (Some ''Confusion Matrix on Training Set.png'') 300) (\<lambda>_.
     bind_res (emit [Clf]) (\<lambda>_.
     bind_res (emit [Print ''Val'']) (\<lambda>_.
     bind_res (evaluate (tensor_topk env) (run_model env model) val_loader (cross_entropy env) (Ncrop a))
       (\<lambda>(y_gt, y_pred).
     bind_res (draw_confusion_matrix y_gt y_pred [''Angry'', ''Happy'', ''Sad'', ''Neutral'']
                 ''Confusion Matrix on Val Set''
                 (Some ''Confusion Matrix on Val Set.png'') 300) (\<lambda>_.
     bind_res (emit [Clf]) (\<lambda>_.
     bind_res (emit [Print ''Test'']) (\<lambda>_.
     bind_res (evaluate (tensor_topk env) (run_model env model) test_loader (cross_entropy env) (Ncrop a))
       (\<lambda>(y_gt, y_pred).
     draw_confusion_matrix y_gt y_pred [''Angry'', ''Happy'', ''Sad'', ''Neutral'']
       ''Confusion Matrix on Test Set''
       (Some ''Confusion Matrix on Test Set.png'') 300))))))))))))))))"

subsection \<open>The loop body without its accumulation\<close>

text \<open>
  What one pass through the loop body computes from a batch, in the order of the source:
  the scores, the loss, the two correct counts and the predicted classes. \<open>accumulate\<close>
  is the update of the running totals by these values.
\<close>

record batch_stats =
  b_outputs :: tensor
  b_loss :: real
  b_counts :: "nat list"
  b_preds :: "nat list"

definition batch_result :: "topk_fn \<Rightarrow> net \<Rightarrow> loss_fn \<Rightarrow> bool \<Rightarrow> batch \<Rightarrow> error + batch_stats" where
  "batch_result tk net lf nc b =
     bind_err (forward net nc (fst b)) (\<lambda>outputs.
     bind_err (lf outputs (snd b)) (\<lambda>loss.
     bind_err (correct_count tk outputs (snd b) [1, 2]) (\<lambda>counts.
     bind_err (max_dim1 outputs) (\<lambda>preds.
     Inr \<lparr>b_outputs = outputs, b_loss = loss, b_counts = counts, b_preds = preds\<rparr>))))"

definition accumulate :: "counters \<Rightarrow> batch \<Rightarrow> batch_stats \<Rightarrow> counters" where
  "accumulate s b r =
     \<lparr>loss_tr = loss_tr s + b_loss r,
      n_samples = n_samples s + real (length (snd b)),
      y_pred = y_pred s @ map int (b_preds r),
      y_gt = y_gt s @ snd b,
      correct_count1 = correct_count1 s + real (b_counts r ! 0),
      correct_count2 = correct_count2 s + real (b_counts r ! 1)\<rparr>"

definition total_samples :: "batch list \<Rightarrow> nat" where
  "total_samples dl = sum_list (map (\<lambda>b. length (snd b)) dl)"

text \<open>
  The equal-weight average over the crops, written on the flat score list of the fused
  batch: position \<open>p\<close> of the result is sample \<open>p div k\<close>, class \<open>p mod k\<close>, and crop
  \<open>c\<close> of sample \<open>i\<close> is row \<open>i * C + c\<close> of the fused batch.
\<close>

definition crop_mean :: "nat \<Rightarrow> nat \<Rightarrow> nat \<Rightarrow> real list \<Rightarrow> real list" where
  "crop_mean bs C k d =
     map (\<lambda>p. (\<Sum>c\<leftarrow>[0..<C]. d ! (((p div k) * C + c) * k + p mod k)) / real C) [0..<bs * k]"

subsection \<open>Samples counted by the top-k counts\<close>

text \<open>
  The samples of a batch (by position) whose label is the class that \<open>topk\<close> ranks
  first for the sample's score vector, and the samples whose label is the class ranked
  first or the class ranked second.
\<close>

definition ranked :: "topk_fn \<Rightarrow> tensor \<Rightarrow> int list \<Rightarrow> nat \<Rightarrow> nat list" where
  "ranked tk out labels i = tk 2 (rows (length labels) (shape out ! 1) (data out) ! i)"

definition top1_samples :: "topk_fn \<Rightarrow> tensor \<Rightarrow> int list \<Rightarrow> nat list" where
  "top1_samples tk out labels =
     filter (\<lambda>i. int (ranked tk out labels i ! 0) = labels ! i) [0..<length labels]"

definition top2_samples :: "topk_fn \<Rightarrow> tensor \<Rightarrow> int list \<Rightarrow> nat list" where
  "top2_samples tk out labels =
     filter (\<lambda>i. int (ranked tk out labels i ! 0) = labels ! i
               \<or> int (ranked tk out labels i ! 1) = labels ! i) [0..<length labels]"

subsection \<open>Sample inputs\<close>

text \<open>
  A top-k function that lists equal scores with the lower index first, a network that
  returns the pixels of every image as its scores, a loss function that reports one half
  for every batch, and small batches of images of two pixels.
\<close>

definition stable_topk :: topk_fn where
  "stable_topk n xs = take n (sort_key (\<lambda>i. - (xs ! i)) [0..<length xs])"

definition flat_net :: net where
  "flat_net t = Inr \<lparr>shape = [shape t ! 0, prod_list (drop 1 (shape t))], data = data t\<rparr>"

definition half_loss :: loss_fn where
  "half_loss out labels = Inr (1 / 2)"

definition crop_batch :: tensor where
  "crop_batch = \<lparr>shape = [2, 2, 1, 1, 2], data = [1, 0, 3, 0, 0, 1, 0, 3]\<rparr>"

definition plain_batch :: tensor where
  "plain_batch = \<lparr>shape = [2, 1, 1, 2], data = [1, 0, 0, 1]\<rparr>"

definition crop_batch2 :: tensor where
  "crop_batch2 = \<lparr>shape = [1, 2, 1, 1, 2], data = [0, 5, 2, 1]\<rparr>"

definition crop_loader :: "batch list" where
  "crop_loader = [(crop_batch, [0, 0]), (crop_batch2, [1])]"

definition plain_loader :: "batch list" where
  "plain_loader = [(plain_batch, [0, 1])]"

text \<open>
  Four one-hot images of four pixels with a single crop each, one image per class, and
  an environment in which every loading step succeeds and all three splits are the
  given loader.
\<close>

definition onehot_loader :: "batch list" where
  "onehot_loader =
     [(\<lparr>shape = [4, 1, 1, 1, 4],
        data = [1, 0, 0, 0, 0, 1, 0, 0, 0, 0, 1, 0, 0, 0, 0, 1]\<rparr>, [0, 1, 2, 3])]"

definition demo_env :: "batch list \<Rightarrow> (unit, unit) env" where
  "demo_env l =
     \<lparr>get_model = (\<lambda>name. Inr ()),
      show_model = (\<lambda>m. ''ResNet18''),
      torch_load = (\<lambda>path. Inr (\<lambda>k. if k = ''model_state_dict'' then Some () else None)),
      load_state_dict = (\<lambda>m sd. Inr m),
      run_model = (\<lambda>m. flat_net),
      get_dataloaders = (\<lambda>augment. Inr (l, l, l)),
      cross_entropy = half_loss,
      tensor_topk = stable_topk\<rparr>"

subsection \<open>Milestones of a run\<close>

text \<open>
  The events that mark the progress of a run: printed lines that are not formatted
  metrics, the drawing of a heat map, the saving of a figure and the reset of the
  drawing surface.
\<close>

fun is_milestone :: "event \<Rightarrow> bool" where
  "is_milestone (Print s) = True"
| "is_milestone (Imshow cm cmap) = True"
| "is_milestone (Savefig path dpi) = True"
| "is_milestone Clf = True"
| "is_milestone e = False"

definition milestones :: "event list \<Rightarrow> event list" where
  "milestones tr = filter is_milestone tr"

section \<open>Properties\<close>

subsection \<open>The loop as a fold over the batch results\<close>

lemma step_batch_result:
  "step tk net lf nc s b = bind_err (batch_result tk net lf nc b) (\<lambda>r. Inr (accumulate s b r))"
  by (cases b) (simp add: step_def batch_result_def accumulate_def bind_err_def split: sum.splits)

lemma run_batches_fold:
  "map (batch_result tk net lf nc) dl = map Inr rs \<Longrightarrow>
   run_batches tk net lf nc s dl =
     Inr \<lparr>loss_tr = loss_tr s + sum_list (map b_loss rs),
          n_samples = n_samples s + real (total_samples dl),
          y_pred = y_pred s @ concat (map (\<lambda>r. map int (b_preds r)) rs),
          y_gt = y_gt s @ concat (map snd dl),
          correct_count1 = correct_count1 s + real (sum_list (map (\<lambda>r. b_counts r ! 0) rs)),
          correct_count2 = correct_count2 s + real (sum_list (map (\<lambda>r. b_counts r ! 1) rs))\<rparr>"
proof (induction dl arbitrary: s rs)
  case Nil
  then show ?case by (simp add: total_samples_def)
next
  case (Cons b dl)
  then obtain r rs' where rs: "rs = r # rs'" "batch_result tk net lf nc b = Inr r"
    "map (batch_result tk net lf nc) dl = map Inr rs'"
    by (cases rs) auto
  show ?case
    using Cons.IH [OF rs(3), of "accumulate s b r"] rs(1,2)
    by (simp add: step_batch_result bind_err_def accumulate_def total_samples_def algebra_simps)
qed

lemma run_batches_results:
  "run_batches tk net lf nc s dl = Inr s' \<Longrightarrow> \<exists>rs. map (batch_result tk net lf nc) dl = map Inr rs"
proof (induction dl arbitrary: s)
  case Nil
  then show ?case by simp
next
  case (Cons b dl)
  from Cons.prems obtain r where r: "batch_result tk net lf nc b = Inr r"
    and rest: "run_batches tk net lf nc (accumulate s b r) dl = Inr s'"
    by (auto simp: step_batch_result bind_err_def split: sum.splits)
  from Cons.IH [OF rest] obtain rs where "map (batch_result tk net lf nc) dl = map Inr rs" ..
  with r have "map (batch_result tk net lf nc) (b # dl) = map Inr (r # rs)" by simp
  then show ?case by blast
qed

text \<open>The straight-line tail of \<open>evaluate\<close>, by the point at which it can stop.\<close>

lemma evaluate_cases:
  "evaluate tk net dl lf nc =
     (case run_batches tk net lf nc init_counters dl of
        Inl e \<Rightarrow> ([], Inl e)
      | Inr s \<Rightarrow>
          if n_samples s = 0 then ([], Inl ZeroDivisionError)
          else
            let head = [Print separator,
                        Printf ''Top 1 Accuracy: %2.6f %%'' (100 * correct_count1 s / n_samples s),
                        Printf ''Top 2 Accuracy: %2.6f %%'' (100 * correct_count2 s / n_samples s),
                        Printf ''Loss: %2.6f'' (loss_tr s / n_samples s)]
            in (case micro_score (y_gt s) (y_pred s) of
                  Inl e \<Rightarrow> (head, Inl e)
                | Inr p \<Rightarrow>
                    (case confusion_counts (y_gt s) (y_pred s) of
                       Inl e \<Rightarrow> (head @ [Printf ''Precision: %2.6f'' p, Printf ''Recall: %2.6f'' p,
                                          Printf ''F1 Score: %2.6f'' p], Inl e)
                     | Inr cm \<Rightarrow> (head @ [Printf ''Precision: %2.6f'' p, Printf ''Recall: %2.6f'' p,
                                          Printf ''F1 Score: %2.6f'' p,
                                          PrintMatrix ''Confusion Matrix:'' cm],
                                  Inr (y_gt s, y_pred s)))))"
  by (simp add: evaluate_def bind_res_def lift_err_def emit_def py_div_def Let_def
           split: sum.splits)

lemma evaluate_Nil: "evaluate tk net [] lf nc = ([], Inl ZeroDivisionError)"
  by (simp add: evaluate_cases init_counters_def)

lemma evaluate_loop_error:
  "run_batches tk net lf nc init_counters dl = Inl e \<Longrightarrow> evaluate tk net dl lf nc = ([], Inl e)"
  by (simp add: evaluate_cases)

subsection \<open>A split without samples\<close>

text \<open>
  Claim C7. \<open>evaluate\<close> handles no exception. On a split whose batches hold no sample
  at all it prints nothing and returns no label sequences: it ends in an exception, and
  when the loop itself ran through (as it does on a loader without batches) the
  exception is the ZeroDivisionError of the first division by the sample count.
\<close>

theorem evaluate_empty_split:
  assumes "total_samples dl = 0"
  shows "\<exists>e. evaluate tk net dl lf nc = ([], Inl e) \<and>
             ((\<exists>s. run_batches tk net lf nc init_counters dl = Inr s) \<longrightarrow> e = ZeroDivisionError)"
proof (cases "run_batches tk net lf nc init_counters dl")
  case (Inl e)
  then show ?thesis by (simp add: evaluate_cases)
next
  case (Inr s)
  from run_batches_results [OF Inr] obtain rs
    where "map (batch_result tk net lf nc) dl = map Inr rs" ..
  from run_batches_fold [OF this, of init_counters] Inr assms
  have "n_samples s = 0" by (auto simp: init_counters_def)
  with Inr show ?thesis by (simp add: evaluate_cases)
qed

theorem evaluate_empty_split_witness:
  "total_samples [] = 0 \<and>
   run_batches stable_topk (\<lambda>t. Inr t) (\<lambda>out labels. Inr 0) True init_counters [] = Inr init_counters \<and>
   evaluate stable_topk (\<lambda>t. Inr t) [] (\<lambda>out labels. Inr 0) True = ([], Inl ZeroDivisionError)"
  using evaluate_empty_split [where dl = "[]" and tk = stable_topk and net = "\<lambda>t. Inr t"
      and lf = "\<lambda>out labels. Inr 0" and nc = True]
  by (auto simp: total_samples_def)

subsection \<open>Command-line flags that are never read\<close>

text \<open>
  Claim C9. The parsed values of \<open>--batch_size\<close>, \<open>--seed\<close> and \<open>--data_path\<close> do not
  influence the run: \<open>main\<close> reads the architecture, the checkpoint path and the crop
  flag only, and calls the dataloader factory with \<open>augment=False\<close> and nothing else.
  Two runs in the same environment whose arguments differ in these three values emit the
  same events and end the same way.
\<close>

theorem main_ignores_batch_size_seed_data_path:
  "main (a\<lparr>batch_size := b, seed := sd, data_path := p\<rparr>) env = main a env"
  by (simp add: main_def)

subsection \<open>Multi-crop averaging\<close>

lemma view_fuse:
  assumes "shape t = [bs, C, c, h, w]" and "0 < c * h * w"
  shows "view t [- 1, int c, int h, int w] = Inr (t\<lparr>shape := [bs * C, c, h, w]\<rparr>)"
proof -
  have "numel t = (bs * C) * (c * h * w)" using assms(1) by (simp add: numel_def)
  then show ?thesis using assms(2)
    by (simp add: view_def infer_size_def bind_err_def)
qed

lemma view_unfuse:
  assumes "shape t = [bs * C, k]" and "0 < bs * C"
  shows "view t [int bs, int C, - 1] = Inr (t\<lparr>shape := [bs, C, k]\<rparr>)"
proof -
  have "numel t = k * (bs * C)" using assms(1) by (simp add: numel_def)
  then show ?thesis using assms(2)
    by (simp add: view_def infer_size_def bind_err_def)
qed

lemma forward_crops:
  assumes shp: "shape inputs = [bs, C, c, h, w]" and pos: "0 < bs * C" "0 < c * h * w"
    and net: "net (inputs\<lparr>shape := [bs * C, c, h, w]\<rparr>) = Inr outputs"
    and out: "shape outputs = [bs * C, k]"
  shows "forward net True inputs = Inr \<lparr>shape = [bs, k], data = crop_mean bs C k (data outputs)\<rparr>"
  using view_fuse [OF shp pos(2)] net view_unfuse [OF out pos(1)] shp
  by (simp add: forward_def bind_err_def sum_dim1_def div_scalar_def crop_mean_def Let_def comp_def)




lemma crop_mean_one:
  assumes "length d = bs * k"
  shows "crop_mean bs 1 k d = d"
proof -
  have "crop_mean bs 1 k d = map (\<lambda>p. d ! p) [0..<bs * k]"
    unfolding crop_mean_def
  proof (rule map_cong [OF refl])
    fix p assume "p \<in> set [0..<bs * k]"
    show "(\<Sum>c\<leftarrow>[0..<1]. d ! ((p div k * 1 + c) * k + p mod k)) / real 1 = d ! p"
      by simp
  qed
  also have "\<dots> = d" using assms [symmetric] by (simp add: map_nth)
  finally show ?thesis .
qed

text \<open>
  Claim C5. A single crop changes nothing: on a non-empty batch of non-empty images for
  which the network returns a well-formed score matrix \<open>[bs, k]\<close>, the crop path applied
  to the batch viewed with a crop dimension of size one returns exactly what the plain
  path returns on the batch.
\<close>

theorem single_crop_equals_plain:
  assumes "shape inputs = [bs, c, h, w]" and "0 < bs" and "0 < c * h * w"
    and "net inputs = Inr outputs" and "shape outputs = [bs, k]" and "wf_tensor outputs"
  shows "forward net True (inputs\<lparr>shape := [bs, 1, c, h, w]\<rparr>) = forward net False inputs"
proof -
  have same: "inputs\<lparr>shape := [bs, c, h, w]\<rparr> = inputs" using assms(1) by simp
  have "forward net True (inputs\<lparr>shape := [bs, 1, c, h, w]\<rparr>)
          = Inr \<lparr>shape = [bs, k], data = crop_mean bs 1 k (data outputs)\<rparr>"
    by (rule forward_crops [where c = c and h = h and w = w])
       (use assms in \<open>simp_all add: same\<close>)
  also have "crop_mean bs 1 k (data outputs) = data outputs"
    using assms(5,6) by (intro crop_mean_one) (simp add: wf_tensor_def numel_def)
  also have "\<lparr>shape = [bs, k], data = data outputs\<rparr> = outputs" using assms(5) by simp
  finally show ?thesis using assms(4) by (simp add: forward_def)
qed

theorem single_crop_equals_plain_witness:
  "shape plain_batch = [2, 1, 1, 2] \<and> (0::nat) < 2 \<and> (0::nat) < 1 * 1 * 2 \<and>
   flat_net plain_batch = Inr \<lparr>shape = [2, 2], data = [1, 0, 0, 1]\<rparr> \<and>
   wf_tensor \<lparr>shape = [2, 2], data = [1, 0, 0, 1]\<rparr> \<and>
   forward flat_net True (plain_batch\<lparr>shape := [2, 1, 1, 1, 2]\<rparr>)
     = Inr \<lparr>shape = [2, 2], data = [1, 0, 0, 1]\<rparr> \<and>
   forward flat_net False plain_batch = Inr \<lparr>shape = [2, 2], data = [1, 0, 0, 1]\<rparr>"
proof -
  have h1: "shape plain_batch = [2, 1, 1, 2]" by (simp add: plain_batch_def)
  have h2: "(0::nat) < 2" and h3: "(0::nat) < 1 * 1 * 2" by simp_all
  have h4: "flat_net plain_batch = Inr \<lparr>shape = [2, 2], data = [1, 0, 0, 1]\<rparr>"
    by (simp add: flat_net_def plain_batch_def)
  have h5: "shape \<lparr>shape = [2, 2], data = [1, 0, 0, 1]\<rparr> = [2, 2]" by simp
  have h6: "wf_tensor \<lparr>shape = [2, 2], data = [1, 0, 0, 1]\<rparr>"
    by (simp add: wf_tensor_def numel_def)
  have ev: "forward flat_net False plain_batch = Inr \<lparr>shape = [2, 2], data = [1, 0, 0, 1]\<rparr>"
    by (simp add: forward_def h4)
  from single_crop_equals_plain [where net = flat_net and inputs = plain_batch,
      OF h1 h2 h3 h4 h5 h6] h1 h4 h6 ev
  show ?thesis by simp
qed

subsection \<open>Printed metrics\<close>

lemma correct_count_12:
  assumes "correct_count tk out tgt [1, 2] = Inr cs"
  shows "length cs = 2 \<and> cs ! 0 \<le> cs ! 1"
proof -
  have two: "[0..<2] = [0, Suc 0]" by (simp add: upt_rec)
  from assms show ?thesis
    by (auto simp: correct_count_def bind_err_def Let_def two take_Suc_conv_app_nth numeral_2_eq_2
             split: if_splits sum.splits)
qed

lemma batch_result_counts:
  "batch_result tk net lf nc b = Inr r \<Longrightarrow> correct_count tk (b_outputs r) (snd b) [1, 2] = Inr (b_counts r)"
  by (auto simp: batch_result_def bind_err_def split: sum.splits)

lemma results_counts_le:
  assumes "map (batch_result tk net lf nc) dl = map Inr rs"
  shows "sum_list (map (\<lambda>r. b_counts r ! 0) rs) \<le> sum_list (map (\<lambda>r. b_counts r ! 1) rs)"
proof (rule sum_list_mono)
  fix r assume "r \<in> set rs"
  then have "Inr r \<in> set (map (batch_result tk net lf nc) dl)" using assms by simp
  then obtain b where "batch_result tk net lf nc b = Inr r" by auto
  from correct_count_12 [OF batch_result_counts [OF this]]
  show "b_counts r ! 0 \<le> b_counts r ! 1" by simp
qed

lemma evaluate_head:
  assumes rs: "map (batch_result tk net lf nc) dl = map Inr rs" and pos: "0 < total_samples dl"
  shows "\<exists>rest. fst (evaluate tk net dl lf nc) =
     [Print separator,
      Printf ''Top 1 Accuracy: %2.6f %%''
        (100 * real (sum_list (map (\<lambda>r. b_counts r ! 0) rs)) / real (total_samples dl)),
      Printf ''Top 2 Accuracy: %2.6f %%''
        (100 * real (sum_list (map (\<lambda>r. b_counts r ! 1) rs)) / real (total_samples dl)),
      Printf ''Loss: %2.6f'' (sum_list (map b_loss rs) / real (total_samples dl))] @ rest"
  using pos
  by (simp add: evaluate_cases run_batches_fold [OF rs] init_counters_def Let_def
           split: sum.splits)

lemma crop_loader_results:
  "map (batch_result stable_topk flat_net half_loss True) crop_loader =
     map Inr [\<lparr>b_outputs = \<lparr>shape = [2, 2], data = [2, 0, 0, 2]\<rparr>, b_loss = 1 / 2,
               b_counts = [1, 2], b_preds = [0, 1]\<rparr>,
              \<lparr>b_outputs = \<lparr>shape = [1, 2], data = [1, 3]\<rparr>, b_loss = 1 / 2,
               b_counts = [1, 1], b_preds = [1]\<rparr>]"
  by code_simp

lemma crop_loader_samples: "total_samples crop_loader = 3"
  by code_simp

text \<open>
  Claim C2. When every batch of a split is evaluated without an exception and the split
  has at least one sample, the first four lines that \<open>evaluate\<close> prints are the separator,
  the top-1 and top-2 accuracies \<open>100 * correct_k / total_samples\<close>, where \<open>correct_k\<close>
  is the sum over the batches of the top-k correct counts, and the loss line, whose
  value is the sum of the losses reported for the batches (one number per batch, the
  batch mean for the loss function of \<open>main\<close>) divided by the number of samples.
\<close>

theorem evaluate_printed_metrics:
  assumes "map (batch_result tk net lf nc) dl = map Inr rs" and "0 < total_samples dl"
  shows "take 4 (fst (evaluate tk net dl lf nc)) =
     [Print separator,
      Printf ''Top 1 Accuracy: %2.6f %%''
        (100 * real (sum_list (map (\<lambda>r. b_counts r ! 0) rs)) / real (total_samples dl)),
      Printf ''Top 2 Accuracy: %2.6f %%''
        (100 * real (sum_list (map (\<lambda>r. b_counts r ! 1) rs)) / real (total_samples dl)),
      Printf ''Loss: %2.6f'' (sum_list (map b_loss rs) / real (total_samples dl))]"
  using evaluate_head [OF assms] by auto

theorem evaluate_printed_metrics_witness:
  "map (batch_result stable_topk flat_net half_loss True) crop_loader =
     map Inr [\<lparr>b_outputs = \<lparr>shape = [2, 2], data = [2, 0, 0, 2]\<rparr>, b_loss = 1 / 2,
               b_counts = [1, 2], b_preds = [0, 1]\<rparr>,
              \<lparr>b_outputs = \<lparr>shape = [1, 2], data = [1, 3]\<rparr>, b_loss = 1 / 2,
               b_counts = [1, 1], b_preds = [1]\<rparr>] \<and>
   0 < total_samples crop_loader \<and>
   take 4 (fst (evaluate stable_topk flat_net crop_loader half_loss True)) =
     [Print separator,
      Printf ''Top 1 Accuracy: %2.6f %%'' (200 / 3),
      Printf ''Top 2 Accuracy: %2.6f %%'' 100,
      Printf ''Loss: %2.6f'' (1 / 3)]"
proof -
  have h2: "0 < total_samples crop_loader" by (simp add: crop_loader_samples)
  from evaluate_printed_metrics [OF crop_loader_results h2] crop_loader_results h2
  show ?thesis by (simp add: crop_loader_samples)
qed

subsection \<open>The returned label sequences\<close>

text \<open>\<open>argmax\<close> is the position of the first maximal element.\<close>

lemma fold_max_Max:
  assumes "xs \<noteq> []"
  shows "fold max xs (hd xs) = Max (set xs)"
proof -
  from assms obtain x ys where xs: "xs = x # ys" by (cases xs) auto
  have "fold max xs (hd xs) = fold max ys x" by (simp add: xs)
  also have "\<dots> = Max (set (x # ys))" by (rule Max.set_eq_fold [symmetric])
  finally show ?thesis by (simp only: xs)
qed

lemma takeWhile_stops:
  assumes "x \<in> set xs" and "\<not> P x"
  shows "length (takeWhile P xs) < length xs"
  using assms by (induction xs) auto

lemma argmax_less:
  assumes "xs \<noteq> []"
  shows "argmax xs < length xs"
proof -
  have "Max (set xs) \<in> set xs" using assms by (intro Max_in) auto
  moreover have "\<not> Max (set xs) < Max (set xs)" by simp
  ultimately have "length (takeWhile (\<lambda>x. x < Max (set xs)) xs) < length xs"
    by (rule takeWhile_stops)
  then show ?thesis by (simp add: argmax_def fold_max_Max [OF assms])
qed

lemma argmax_maximal:
  assumes "xs \<noteq> []"
  shows "xs ! argmax xs = Max (set xs)" and "\<forall>j<argmax xs. xs ! j < xs ! argmax xs"
proof -
  let ?M = "Max (set xs)"
  have am: "argmax xs = length (takeWhile (\<lambda>x. x < ?M) xs)"
    by (simp add: argmax_def fold_max_Max [OF assms])
  have lt: "argmax xs < length xs" by (rule argmax_less [OF assms])
  then have "\<not> xs ! argmax xs < ?M" unfolding am by (rule nth_length_takeWhile)
  moreover have "xs ! argmax xs \<le> ?M" using lt by (intro Max_ge) auto
  ultimately show eq: "xs ! argmax xs = ?M" by simp
  show "\<forall>j<argmax xs. xs ! j < xs ! argmax xs"
  proof (intro allI impI)
    fix j assume j: "j < argmax xs"
    then have "takeWhile (\<lambda>x. x < ?M) xs ! j \<in> set (takeWhile (\<lambda>x. x < ?M) xs)"
      unfolding am by (intro nth_mem)
    then have "takeWhile (\<lambda>x. x < ?M) xs ! j < ?M" by (auto dest: set_takeWhileD)
    moreover have "takeWhile (\<lambda>x. x < ?M) xs ! j = xs ! j"
      using j unfolding am by (rule takeWhile_nth)
    ultimately show "xs ! j < xs ! argmax xs" by (simp add: eq)
  qed
qed

lemma argmax_row_less:
  assumes "0 < k"
  shows "argmax (take k (drop m d)) < k"
proof (cases "take k (drop m d) = []")
  case True
  then show ?thesis using assms by (simp add: argmax_def)
next
  case False
  from argmax_less [OF False] show ?thesis by simp
qed

lemma max_dim1_range:
  assumes "max_dim1 t = Inr ps" and "shape t = [n, k]"
  shows "ps = map argmax (rows n k (data t)) \<and> length ps = n \<and> (\<forall>p\<in>set ps. p < k)"
proof -
  from assms have k: "0 < k" and ps: "ps = map argmax (rows n k (data t))"
    by (auto simp: max_dim1_def split: if_splits)
  show ?thesis using k by (auto simp: ps rows_def argmax_row_less)
qed

lemma batch_result_parts:
  assumes "batch_result tk net lf nc b = Inr r"
  shows "forward net nc (fst b) = Inr (b_outputs r)"
    and "lf (b_outputs r) (snd b) = Inr (b_loss r)"
    and "max_dim1 (b_outputs r) = Inr (b_preds r)"
  using assms by (auto simp: batch_result_def bind_err_def split: sum.splits)

lemma evaluate_Inr:
  assumes "evaluate tk net dl lf nc = (tr, Inr res)"
  shows "\<exists>rs. map (batch_result tk net lf nc) dl = map Inr rs \<and>
              res = (concat (map snd dl), concat (map (\<lambda>r. map int (b_preds r)) rs)) \<and>
              length (fst res) = length (snd res) \<and> 0 < total_samples dl"
proof -
  from assms obtain s where s: "run_batches tk net lf nc init_counters dl = Inr s"
    and n: "n_samples s \<noteq> 0" and res: "res = (y_gt s, y_pred s)"
    and len: "length (y_gt s) = length (y_pred s)"
    by (auto simp: evaluate_cases Let_def micro_score_def split: sum.splits if_splits)
  from run_batches_results [OF s] obtain rs
    where rs: "map (batch_result tk net lf nc) dl = map Inr rs" ..
  from run_batches_fold [OF rs, of init_counters] s
  have "y_gt s = concat (map snd dl)" "y_pred s = concat (map (\<lambda>r. map int (b_preds r)) rs)"
    "n_samples s = real (total_samples dl)"
    by (auto simp: init_counters_def)
  with rs res len n show ?thesis by auto
qed


lemma results_from_batches:
  assumes "map (batch_result tk net lf nc) dl = map Inr rs" and "r \<in> set rs"
  shows "\<exists>b\<in>set dl. batch_result tk net lf nc b = Inr r"
proof -
  from assms have "Inr r \<in> set (map (batch_result tk net lf nc) dl)" by simp
  then show ?thesis by auto
qed

lemma zip_results:
  assumes "map f dl = map Inr rs" and "(b, r) \<in> set (zip dl rs)"
  shows "f b = Inr r"
proof -
  from assms(2) obtain i where i: "i < length dl" "i < length rs" "dl ! i = b" "rs ! i = r"
    by (auto simp: set_zip)
  from assms(1) have "map f dl ! i = map Inr rs ! i" by simp
  with i show ?thesis by simp
qed

lemma row_length:
  assumes "i < n" and "n * k \<le> length d"
  shows "length (rows n k d ! i) = k"
proof -
  have "Suc i * k \<le> n * k" using assms(1) by (intro mult_le_mono1) simp
  then have "i * k + k \<le> length d" using assms(2) by simp
  then show ?thesis using assms(1) by (simp add: rows_def)
qed

lemma max_dim1_sample:
  assumes md: "max_dim1 t = Inr ps" and shp: "shape t = [n, k]" and i: "i < n"
  shows "(wf_tensor t \<longrightarrow> length (rows n k (data t) ! i) = k) \<and>
         (rows n k (data t) ! i \<noteq> [] \<longrightarrow>
            ps ! i < length (rows n k (data t) ! i) \<and>
            rows n k (data t) ! i ! (ps ! i) = Max (set (rows n k (data t) ! i)) \<and>
            (\<forall>j<ps ! i. rows n k (data t) ! i ! j < Max (set (rows n k (data t) ! i))))"
proof -
  let ?row = "rows n k (data t) ! i"
  from max_dim1_range [OF md shp] have ps: "ps = map argmax (rows n k (data t))" by simp
  have lr: "length (rows n k (data t)) = n" by (simp add: rows_def)
  have pi: "ps ! i = argmax ?row" using i lr by (simp add: ps)
  have wf: "length ?row = k" if "wf_tensor t"
  proof -
    from that shp have "n * k \<le> length (data t)" by (simp add: wf_tensor_def numel_def)
    from row_length [OF i this] show ?thesis .
  qed
  have mx: "ps ! i < length ?row \<and> ?row ! (ps ! i) = Max (set ?row) \<and>
            (\<forall>j<ps ! i. ?row ! j < Max (set ?row))" if ne: "?row \<noteq> []"
    using argmax_less [OF ne] argmax_maximal [OF ne] by (simp add: pi)
  from wf mx show ?thesis by blast
qed

text \<open>
  Claim C4. When \<open>evaluate\<close> returns, it returns the ground truth first and the
  predictions second. Both sequences have one entry per sample of the split, in
  iteration order: the ground truth is the concatenation of the label lists of the
  batches, and the predictions are the concatenation, batch by batch, of one entry per
  row of the scores that the forward pass returns for the batch (the crop average on
  the crop path). The entry of a sample is a position of its score vector that holds
  the maximal score, and no earlier position does. With labels in \<open>[0, k)\<close> and \<open>k\<close>
  scores per sample, all entries lie in \<open>[0, k)\<close>.
\<close>

theorem evaluate_label_sequences:
  assumes ev: "evaluate tk net dl lf nc = (tr, Inr (gt, pred))"
    and labels: "\<forall>b\<in>set dl. \<forall>y\<in>set (snd b). 0 \<le> y \<and> y < int k"
    and outs: "\<forall>b\<in>set dl. \<forall>out. forward net nc (fst b) = Inr out \<longrightarrow> (\<exists>n. shape out = [n, k])"
  shows "gt = concat (map snd dl) \<and> length gt = total_samples dl \<and>
         length pred = total_samples dl \<and>
         (\<forall>y\<in>set gt. 0 \<le> y \<and> y < int k) \<and> (\<forall>p\<in>set pred. 0 \<le> p \<and> p < int k) \<and>
         (\<exists>rs. map (batch_result tk net lf nc) dl = map Inr rs \<and>
               pred = concat (map (\<lambda>r. map int (b_preds r)) rs) \<and>
               (\<forall>(b, r)\<in>set (zip dl rs).
                  forward net nc (fst b) = Inr (b_outputs r) \<and>
                  (\<exists>n. shape (b_outputs r) = [n, k] \<and> length (b_preds r) = n \<and>
                     (\<forall>i<n.
                        (wf_tensor (b_outputs r)
                           \<longrightarrow> length (rows n k (data (b_outputs r)) ! i) = k) \<and>
                        (rows n k (data (b_outputs r)) ! i \<noteq> [] \<longrightarrow>
                           b_preds r ! i < length (rows n k (data (b_outputs r)) ! i) \<and>
                           rows n k (data (b_outputs r)) ! i ! (b_preds r ! i)
                             = Max (set (rows n k (data (b_outputs r)) ! i)) \<and>
                           (\<forall>j<b_preds r ! i. rows n k (data (b_outputs r)) ! i ! j
                             < Max (set (rows n k (data (b_outputs r)) ! i))))))))"
proof -
  from evaluate_Inr [OF ev] obtain rs where
    rs: "map (batch_result tk net lf nc) dl = map Inr rs"
    and gt: "gt = concat (map snd dl)"
    and pred: "pred = concat (map (\<lambda>r. map int (b_preds r)) rs)"
    and len: "length gt = length pred"
    by auto
  have lgt: "length gt = total_samples dl"
    by (simp add: gt length_concat total_samples_def comp_def)
  have range: "\<forall>p\<in>set (b_preds r). p < k" if "r \<in> set rs" for r
  proof -
    from results_from_batches [OF rs that] obtain b
      where b: "b \<in> set dl" "batch_result tk net lf nc b = Inr r" by blast
    from batch_result_parts(1) [OF b(2)] outs b(1)
    obtain n where n: "shape (b_outputs r) = [n, k]" by blast
    from max_dim1_range [OF batch_result_parts(3) [OF b(2)] n] show ?thesis by simp
  qed
  have each: "forward net nc (fst b) = Inr (b_outputs r) \<and>
      (\<exists>n. shape (b_outputs r) = [n, k] \<and> length (b_preds r) = n \<and>
         (\<forall>i<n.
            (wf_tensor (b_outputs r) \<longrightarrow> length (rows n k (data (b_outputs r)) ! i) = k) \<and>
            (rows n k (data (b_outputs r)) ! i \<noteq> [] \<longrightarrow>
               b_preds r ! i < length (rows n k (data (b_outputs r)) ! i) \<and>
               rows n k (data (b_outputs r)) ! i ! (b_preds r ! i)
                 = Max (set (rows n k (data (b_outputs r)) ! i)) \<and>
               (\<forall>j<b_preds r ! i. rows n k (data (b_outputs r)) ! i ! j
                 < Max (set (rows n k (data (b_outputs r)) ! i))))))"
    if br: "(b, r) \<in> set (zip dl rs)" for b r
  proof -
    from zip_results [OF rs br] have res: "batch_result tk net lf nc b = Inr r" .
    from br have bdl: "b \<in> set dl" by (rule set_zip_leftD)
    note fw = batch_result_parts(1) [OF res]
    note md = batch_result_parts(3) [OF res]
    from fw outs bdl obtain n where n: "shape (b_outputs r) = [n, k]" by blast
    from max_dim1_range [OF md n] have ln: "length (b_preds r) = n" by blast
    from fw n ln max_dim1_sample [OF md n] show ?thesis by blast
  qed
  have rgt: "\<forall>y\<in>set gt. 0 \<le> y \<and> y < int k" using labels by (auto simp: gt)
  have rpred: "\<forall>p\<in>set pred. 0 \<le> p \<and> p < int k" using range by (auto simp: pred)
  have all: "\<forall>(b, r)\<in>set (zip dl rs).
                  forward net nc (fst b) = Inr (b_outputs r) \<and>
                  (\<exists>n. shape (b_outputs r) = [n, k] \<and> length (b_preds r) = n \<and>
                     (\<forall>i<n.
                        (wf_tensor (b_outputs r)
                           \<longrightarrow> length (rows n k (data (b_outputs r)) ! i) = k) \<and>
                        (rows n k (data (b_outputs r)) ! i \<noteq> [] \<longrightarrow>
                           b_preds r ! i < length (rows n k (data (b_outputs r)) ! i) \<and>
                           rows n k (data (b_outputs r)) ! i ! (b_preds r ! i)
                             = Max (set (rows n k (data (b_outputs r)) ! i)) \<and>
                           (\<forall>j<b_preds r ! i. rows n k (data (b_outputs r)) ! i ! j
                             < Max (set (rows n k (data (b_outputs r)) ! i))))))"
  proof (rule ballI)
    fix x assume x: "x \<in> set (zip dl rs)"
    obtain b r where xbr: "x = (b, r)" by (cases x)
    from each [of b r] x show "case x of (b, r) \<Rightarrow>
                  forward net nc (fst b) = Inr (b_outputs r) \<and>
                  (\<exists>n. shape (b_outputs r) = [n, k] \<and> length (b_preds r) = n \<and>
                     (\<forall>i<n.
                        (wf_tensor (b_outputs r)
                           \<longrightarrow> length (rows n k (data (b_outputs r)) ! i) = k) \<and>
                        (rows n k (data (b_outputs r)) ! i \<noteq> [] \<longrightarrow>
                           b_preds r ! i < length (rows n k (data (b_outputs r)) ! i) \<and>
                           rows n k (data (b_outputs r)) ! i ! (b_preds r ! i)
                             = Max (set (rows n k (data (b_outputs r)) ! i)) \<and>
                           (\<forall>j<b_preds r ! i. rows n k (data (b_outputs r)) ! i ! j
                             < Max (set (rows n k (data (b_outputs r)) ! i))))))"
      unfolding xbr prod.case by blast
  qed
  have ex: "\<exists>rs. map (batch_result tk net lf nc) dl = map Inr rs \<and>
               pred = concat (map (\<lambda>r. map int (b_preds r)) rs) \<and>
               (\<forall>(b, r)\<in>set (zip dl rs).
                  forward net nc (fst b) = Inr (b_outputs r) \<and>
                  (\<exists>n. shape (b_outputs r) = [n, k] \<and> length (b_preds r) = n \<and>
                     (\<forall>i<n.
                        (wf_tensor (b_outputs r)
                           \<longrightarrow> length (rows n k (data (b_outputs r)) ! i) = k) \<and>
                        (rows n k (data (b_outputs r)) ! i \<noteq> [] \<longrightarrow>
                           b_preds r ! i < length (rows n k (data (b_outputs r)) ! i) \<and>
                           rows n k (data (b_outputs r)) ! i ! (b_preds r ! i)
                             = Max (set (rows n k (data (b_outputs r)) ! i)) \<and>
                           (\<forall>j<b_preds r ! i. rows n k (data (b_outputs r)) ! i ! j
                             < Max (set (rows n k (data (b_outputs r)) ! i)))))))"
    apply (rule exI [of _ rs])
    apply (intro conjI)
      apply (rule rs)
     apply (rule pred)
    apply (rule all)
    done
  have lpred: "length pred = total_samples dl" using len lgt by simp
  show ?thesis
    apply (intro conjI)
         apply (rule gt)
        apply (rule lgt)
       apply (rule lpred)
      apply (rule rgt)
     apply (rule rpred)
    apply (rule ex)
    done
qed


lemma crop_loader_evaluate:
  "evaluate stable_topk flat_net crop_loader half_loss True =
     ([Print separator,
       Printf ''Top 1 Accuracy: %2.6f %%'' (200 / 3),
       Printf ''Top 2 Accuracy: %2.6f %%'' 100,
       Printf ''Loss: %2.6f'' (1 / 3),
       Printf ''Precision: %2.6f'' (2 / 3),
       Printf ''Recall: %2.6f'' (2 / 3),
       Printf ''F1 Score: %2.6f'' (2 / 3),
       PrintMatrix ''Confusion Matrix:'' [[1, 1], [0, 1]]],
      Inr ([0, 0, 1], [0, 1, 1]))"
  by code_simp

lemma crop_loader_forward:
  "forward flat_net True crop_batch = Inr \<lparr>shape = [2, 2], data = [2, 0, 0, 2]\<rparr>"
  "forward flat_net True crop_batch2 = Inr \<lparr>shape = [1, 2], data = [1, 3]\<rparr>"
  by code_simp+

theorem evaluate_label_sequences_witness:
  "evaluate stable_topk flat_net crop_loader half_loss True =
     ([Print separator,
       Printf ''Top 1 Accuracy: %2.6f %%'' (200 / 3),
       Printf ''Top 2 Accuracy: %2.6f %%'' 100,
       Printf ''Loss: %2.6f'' (1 / 3),
       Printf ''Precision: %2.6f'' (2 / 3),
       Printf ''Recall: %2.6f'' (2 / 3),
       Printf ''F1 Score: %2.6f'' (2 / 3),
       PrintMatrix ''Confusion Matrix:'' [[1, 1], [0, 1]]],
      Inr ([0, 0, 1], [0, 1, 1])) \<and>
   [0, 0, 1] = concat (map snd crop_loader) \<and>
   length [0, 0, 1 :: int] = total_samples crop_loader \<and>
   length [0, 1, 1 :: int] = total_samples crop_loader \<and>
   rows 2 2 [2, 0, 0, 2] ! 1 = [0, 2] \<and>
   [0, 2 :: real] ! ([0, 1] ! 1) = Max (set [0, 2])"
proof -
  have h2: "\<forall>b\<in>set crop_loader. \<forall>y\<in>set (snd b). 0 \<le> y \<and> y < int 2"
    by (simp add: crop_loader_def)
  have h3: "\<forall>b\<in>set crop_loader. \<forall>out. forward flat_net True (fst b) = Inr out
              \<longrightarrow> (\<exists>n. shape out = [n, 2])"
    by (auto simp: crop_loader_def crop_loader_forward)
  note c = evaluate_label_sequences [OF crop_loader_evaluate h2 h3]
  from c have c1: "[0, 0, 1] = concat (map snd crop_loader)" by (rule conjunct1)
  from c have c2: "length [0, 0, 1 :: int] = total_samples crop_loader" by blast
  from c have c3: "length [0, 1, 1 :: int] = total_samples crop_loader" by blast
  from c obtain rs where rs: "map (batch_result stable_topk flat_net half_loss True) crop_loader
      = map Inr rs"
    and all: "\<forall>(b, r)\<in>set (zip crop_loader rs).
                  forward flat_net True (fst b) = Inr (b_outputs r) \<and>
                  (\<exists>n. shape (b_outputs r) = [n, 2] \<and> length (b_preds r) = n \<and>
                     (\<forall>i<n.
                        (wf_tensor (b_outputs r)
                           \<longrightarrow> length (rows n 2 (data (b_outputs r)) ! i) = 2) \<and>
                        (rows n 2 (data (b_outputs r)) ! i \<noteq> [] \<longrightarrow>
                           b_preds r ! i < length (rows n 2 (data (b_outputs r)) ! i) \<and>
                           rows n 2 (data (b_outputs r)) ! i ! (b_preds r ! i)
                             = Max (set (rows n 2 (data (b_outputs r)) ! i)) \<and>
                           (\<forall>j<b_preds r ! i. rows n 2 (data (b_outputs r)) ! i ! j
                             < Max (set (rows n 2 (data (b_outputs r)) ! i))))))"
    by blast
  let ?r0 = "\<lparr>b_outputs = \<lparr>shape = [2, 2], data = [2, 0, 0, 2]\<rparr>, b_loss = 1 / 2,
               b_counts = [1, 2], b_preds = [0, 1]\<rparr>"
  let ?r1 = "\<lparr>b_outputs = \<lparr>shape = [1, 2], data = [1, 3]\<rparr>, b_loss = 1 / 2,
               b_counts = [1, 1], b_preds = [1]\<rparr>"
  from rs crop_loader_results have "map Inr rs = (map Inr [?r0, ?r1] :: (error + batch_stats) list)"
    by simp
  then have rsv: "rs = [?r0, ?r1]" by (rule map_injective) (rule inj_Inr)
  have "((crop_batch, [0, 0]), ?r0) \<in> set (zip crop_loader rs)"
    by (simp add: rsv crop_loader_def)
  with all have "\<exists>n. shape (b_outputs ?r0) = [n, 2] \<and> length (b_preds ?r0) = n \<and>
                     (\<forall>i<n.
                        (wf_tensor (b_outputs ?r0)
                           \<longrightarrow> length (rows n 2 (data (b_outputs ?r0)) ! i) = 2) \<and>
                        (rows n 2 (data (b_outputs ?r0)) ! i \<noteq> [] \<longrightarrow>
                           b_preds ?r0 ! i < length (rows n 2 (data (b_outputs ?r0)) ! i) \<and>
                           rows n 2 (data (b_outputs ?r0)) ! i ! (b_preds ?r0 ! i)
                             = Max (set (rows n 2 (data (b_outputs ?r0)) ! i)) \<and>
                           (\<forall>j<b_preds ?r0 ! i. rows n 2 (data (b_outputs ?r0)) ! i ! j
                             < Max (set (rows n 2 (data (b_outputs ?r0)) ! i)))))"
    by blast
  then have s2: "rows 2 2 [2, 0, 0, 2] ! 1 \<noteq> [] \<longrightarrow>
       rows 2 2 [2, 0, 0, 2] ! 1 ! ([0, 1] ! 1) = Max (set (rows 2 2 [2, 0, 0, 2] ! 1))"
    by simp (erule allE [of _ "Suc 0"], simp)
  have row: "rows 2 2 [2, 0, 0, 2] ! 1 = [0, 2]" by code_simp
  from s2 have c4: "[0, 2 :: real] ! ([0, 1] ! 1) = Max (set [0, 2])"
    unfolding row by simp
  from crop_loader_evaluate c1 c2 c3 row c4 show ?thesis by (intro conjI)
qed

subsection \<open>Top-1 and top-2 accuracy\<close>

text \<open>
  What the documented contract of \<open>topk\<close> gives for the two indices asked of a row: two
  distinct positions, the first with the largest value of the row, the second with the
  largest value among the other positions. \<open>stable_topk\<close> keeps the contract.
\<close>

lemma contract_two:
  assumes tk: "topk_contract tk" and len: "2 \<le> length xs"
  shows "length (tk 2 xs) = 2"
    and "tk 2 xs ! 0 \<noteq> tk 2 xs ! 1"
    and "tk 2 xs ! 0 < length xs" and "tk 2 xs ! 1 < length xs"
    and "xs ! (tk 2 xs ! 0) = Max (set xs)"
    and "\<forall>j<length xs. j \<noteq> tk 2 xs ! 0 \<longrightarrow> xs ! j \<le> xs ! (tk 2 xs ! 1)"
proof -
  let ?t = "tk 2 xs"
  from tk len have l: "length ?t = 2" and d: "distinct ?t"
    and b: "\<forall>a\<in>set ?t. a < length xs"
    and srt: "\<forall>p q. p \<le> q \<and> q < 2 \<longrightarrow> xs ! (?t ! q) \<le> xs ! (?t ! p)"
    and out: "\<forall>j<length xs. j \<notin> set ?t \<longrightarrow> (\<forall>a\<in>set ?t. xs ! j \<le> xs ! a)"
    unfolding topk_contract_def by blast+
  show "length ?t = 2" by (rule l)
  have m0: "?t ! 0 \<in> set ?t" and m1: "?t ! 1 \<in> set ?t" using l by simp_all
  have "(?t ! 0 = ?t ! 1) = (0 = (1::nat))"
    by (rule nth_eq_iff_index_eq [OF d]) (simp_all add: l)
  then show ne: "?t ! 0 \<noteq> ?t ! 1" by simp
  show b0: "?t ! 0 < length xs" using b m0 by blast
  show b1: "?t ! 1 < length xs" using b m1 by blast
  have s10: "xs ! (?t ! 1) \<le> xs ! (?t ! 0)"
    using srt [rule_format, of 0 1] by simp
  have st: "set ?t = {?t ! 0, ?t ! 1}"
  proof -
    have "?t = [?t ! 0, ?t ! 1]" using l by (intro nth_equalityI) (auto simp: less_2_cases_iff)
    then have "set ?t = set [?t ! 0, ?t ! 1]" by (rule arg_cong)
    then show ?thesis by simp
  qed
  have top: "xs ! j \<le> xs ! (?t ! 0)" if "j < length xs" for j
  proof (cases "j \<in> set ?t")
    case True
    then show ?thesis using s10 unfolding st by auto
  next
    case False
    with out that m0 show ?thesis by blast
  qed
  show "xs ! (?t ! 0) = Max (set xs)"
  proof (rule sym, rule Max_eqI)
    show "finite (set xs)" by simp
    show "xs ! (?t ! 0) \<in> set xs" using b0 by simp
    fix y assume "y \<in> set xs"
    then obtain j where "j < length xs" "xs ! j = y" by (auto simp: in_set_conv_nth)
    with top [of j] show "y \<le> xs ! (?t ! 0)" by simp
  qed
  show "\<forall>j<length xs. j \<noteq> ?t ! 0 \<longrightarrow> xs ! j \<le> xs ! (?t ! 1)"
  proof (intro allI impI)
    fix j assume j: "j < length xs" "j \<noteq> ?t ! 0"
    show "xs ! j \<le> xs ! (?t ! 1)"
    proof (cases "j \<in> set ?t")
      case True
      with j(2) have "j = ?t ! 1" unfolding st by simp
      then show ?thesis by simp
    next
      case False
      with out j(1) m1 show ?thesis by blast
    qed
  qed
qed

lemma count_zip:
  assumes "length ps = n" and "length tgt = n"
  shows "length (filter (\<lambda>(p, y). int p = y) (zip (map g ps) tgt))
         = length (filter (\<lambda>i. int (g (ps ! i)) = tgt ! i) [0..<n])"
proof -
  have "zip (map g ps) tgt = map (\<lambda>i. (g (ps ! i), tgt ! i)) [0..<n]"
    using assms by (intro nth_equalityI) simp_all
  then show ?thesis by (simp add: filter_map comp_def)
qed

lemma count_disjoint:
  assumes "\<forall>i\<in>set xs. \<not> (P i \<and> Q i)"
  shows "length (filter P xs) + length (filter Q xs) = length (filter (\<lambda>i. P i \<or> Q i) xs)"
  using assms by (induction xs) auto

lemma correct_count_samples:
  assumes tk: "topk_contract tk" and shp: "shape out = [n, k]" and k: "2 \<le> k"
    and lt: "length tgt = n" and wf: "n * k \<le> length (data out)"
  shows "correct_count tk out tgt [1, 2]
         = Inr [length (top1_samples tk out tgt), length (top2_samples tk out tgt)]"
proof -
  let ?rs = "rows n k (data out)"
  let ?P = "\<lambda>r i. int (tk 2 (?rs ! i) ! r) = tgt ! i"
  have lrs: "length ?rs = n" by (simp add: rows_def)
  have two: "[0..<2] = [0, 1]" by (simp add: upt_rec)
  have cnt: "length (filter (\<lambda>(p, y). int p = y)
                 (zip (map ((\<lambda>p. p ! r) \<circ> tk (Suc (Suc 0))) ?rs) tgt))
             = length (filter (?P r) [0..<n])" for r
    using count_zip [OF lrs lt, of "(\<lambda>p. p ! r) \<circ> tk 2"]
    by (simp add: numeral_2_eq_2)
  have disj: "\<forall>i\<in>set [0..<n]. \<not> (?P 0 i \<and> ?P 1 i)"
  proof
    fix i assume "i \<in> set [0..<n]"
    then have "i < n" by simp
    from row_length [OF this wf] k have "2 \<le> length (?rs ! i)" by simp
    from contract_two(2) [OF tk this] show "\<not> (?P 0 i \<and> ?P 1 i)" by auto
  qed
  have "correct_count tk out tgt [1, 2] =
     Inr [length (filter (?P 0) [0..<n]),
          length (filter (?P 0) [0..<n]) + length (filter (?P 1) [0..<n])]"
    using k
    by (simp add: correct_count_def shp lt expand_target_def bind_err_def Let_def two cnt)
  also have "length (filter (?P 0) [0..<n]) + length (filter (?P 1) [0..<n])
      = length (filter (\<lambda>i. ?P 0 i \<or> ?P 1 i) [0..<n])"
    by (rule count_disjoint [OF disj])
  finally show ?thesis by (simp add: top1_samples_def top2_samples_def ranked_def shp lt)
qed

lemma correct_count_shape:
  assumes "correct_count tk out tgt [1, 2] = Inr cs"
  shows "shape out = [shape out ! 0, shape out ! 1] \<and> 2 \<le> shape out ! 1"
proof -
  from assms have l: "length (shape out) = 2" and k: "2 \<le> shape out ! 1"
    by (auto simp: correct_count_def Let_def split: if_splits)
  have "shape out = [shape out ! 0, shape out ! 1]"
    using l by (intro nth_equalityI) (auto simp: less_2_cases_iff)
  with k show ?thesis by simp
qed

lemma sum_zip_snd:
  assumes "length dl = length rs"
  shows "sum_list (map g rs) = sum_list (map (\<lambda>(b, r). g r) (zip dl rs))"
proof -
  have "map (\<lambda>(b, r). g r) (zip dl rs) = map g (map snd (zip dl rs))"
    by (simp add: case_prod_beta comp_def)
  also have "map snd (zip dl rs) = rs" using assms by simp
  finally show ?thesis by simp
qed

lemma stable_topk_contract: "topk_contract stable_topk"
  unfolding topk_contract_def
proof (intro allI impI)
  fix n :: nat and xs :: "real list"
  assume n: "n \<le> length xs"
  let ?s = "sort_key (\<lambda>i. - (xs ! i)) [0..<length xs]"
  let ?t = "stable_topk n xs"
  have len: "length ?s = length xs" by simp
  have dist: "distinct ?s" by simp
  have set: "set ?s = {0..<length xs}" by simp
  have sorted: "sorted (map (\<lambda>i. - (xs ! i)) ?s)" by (rule sorted_sort_key)
  have t: "?t = take n ?s" by (simp add: stable_topk_def)
  have lt: "length ?t = n" using n by (simp add: t)
  have dt: "distinct ?t" unfolding t using dist by (rule distinct_take)
  have sub: "set ?t \<subseteq> set ?s" unfolding t by (rule set_take_subset)
  have bt: "\<forall>a\<in>set ?t. a < length xs" using sub unfolding set by auto
  have nth: "?t ! q = ?s ! q" if "q < n" for q unfolding t using that by simp
  have le: "xs ! (?s ! b) \<le> xs ! (?s ! a)" if "a \<le> b" "b < length xs" for a b
  proof -
    have "map (\<lambda>i. - (xs ! i)) ?s ! a \<le> map (\<lambda>i. - (xs ! i)) ?s ! b"
      using sorted that len by (intro sorted_nth_mono) simp_all
    then show ?thesis using that len by simp
  qed
  have srt: "\<forall>p q. p \<le> q \<and> q < n \<longrightarrow> xs ! (?t ! q) \<le> xs ! (?t ! p)"
  proof (intro allI impI)
    fix p q assume pq: "p \<le> q \<and> q < n"
    then have "q < length xs" "p < n" using n by simp_all
    with pq le [of p q] show "xs ! (?t ! q) \<le> xs ! (?t ! p)" by (simp add: nth)
  qed
  have out: "\<forall>j<length xs. j \<notin> set ?t \<longrightarrow> (\<forall>a\<in>set ?t. xs ! j \<le> xs ! a)"
  proof (intro allI impI ballI)
    fix j a assume j: "j < length xs" and nj: "j \<notin> set ?t" and a: "a \<in> set ?t"
    from a obtain p where p: "p < n" "?t ! p = a" using lt by (auto simp: in_set_conv_nth)
    from j have "j \<in> set ?s" unfolding set by simp
    then obtain q where q: "q < length xs" "?s ! q = j" unfolding in_set_conv_nth len by blast
    have "\<not> q < n"
    proof
      assume qn: "q < n"
      then have "?t ! q \<in> set ?t" using lt by simp
      with nj q(2) nth [OF qn] show False by simp
    qed
    then have "p \<le> q" using p(1) by simp
    from le [OF this q(1)] show "xs ! j \<le> xs ! a" using q(2) p nth [OF p(1)] by simp
  qed
  from lt dt bt srt out
  show "length ?t = n \<and> distinct ?t \<and> (\<forall>a\<in>set ?t. a < length xs) \<and>
        (\<forall>p q. p \<le> q \<and> q < n \<longrightarrow> xs ! (?t ! q) \<le> xs ! (?t ! p)) \<and>
        (\<forall>j<length xs. j \<notin> set ?t \<longrightarrow> (\<forall>a\<in>set ?t. xs ! j \<le> xs ! a))"
    by (intro conjI)
qed

lemma batch_counts_samples:
  assumes tk: "topk_contract tk" and res: "batch_result tk net lf nc b = Inr r"
    and wf: "wf_tensor (b_outputs r)" and n: "shape (b_outputs r) ! 0 = length (snd b)"
  shows "b_counts r = [length (top1_samples tk (b_outputs r) (snd b)),
                       length (top2_samples tk (b_outputs r) (snd b))]"
    and "\<forall>i<length (snd b).
           length (rows (length (snd b)) (shape (b_outputs r) ! 1) (data (b_outputs r)) ! i)
             = shape (b_outputs r) ! 1 \<and>
           2 \<le> shape (b_outputs r) ! 1"
proof -
  let ?out = "b_outputs r"
  note cc = batch_result_counts [OF res]
  from correct_count_shape [OF cc]
  have shp: "shape ?out = [shape ?out ! 0, shape ?out ! 1]" and k: "2 \<le> shape ?out ! 1"
    by simp_all
  have shp': "shape ?out = [length (snd b), shape ?out ! 1]" using shp n by simp
  have "prod_list (shape ?out) = length (snd b) * (shape ?out ! 1)"
    by (subst shp') simp
  with wf have d: "length (snd b) * (shape ?out ! 1) \<le> length (data ?out)"
    by (simp add: wf_tensor_def numel_def)
  from correct_count_samples [OF tk shp' k refl d] cc
  show "b_counts r = [length (top1_samples tk ?out (snd b)), length (top2_samples tk ?out (snd b))]"
    by simp
  show "\<forall>i<length (snd b).
           length (rows (length (snd b)) (shape ?out ! 1) (data ?out) ! i) = shape ?out ! 1 \<and>
           2 \<le> shape ?out ! 1"
    using row_length [OF _ d] k by simp
qed


lemma sample_ranks:
  assumes tk: "topk_contract tk" and res: "batch_result tk net lf nc b = Inr r"
    and wf: "wf_tensor (b_outputs r)" and n: "shape (b_outputs r) ! 0 = length (snd b)"
    and i: "i < length (snd b)"
  shows "(i \<in> set (top1_samples tk (b_outputs r) (snd b))
            \<longleftrightarrow> int (ranked tk (b_outputs r) (snd b) i ! 0) = snd b ! i) \<and>
         (i \<in> set (top2_samples tk (b_outputs r) (snd b))
            \<longleftrightarrow> int (ranked tk (b_outputs r) (snd b) i ! 0) = snd b ! i
              \<or> int (ranked tk (b_outputs r) (snd b) i ! 1) = snd b ! i) \<and>
         length (rows (length (snd b)) (shape (b_outputs r) ! 1) (data (b_outputs r)) ! i)
           = shape (b_outputs r) ! 1 \<and>
         length (ranked tk (b_outputs r) (snd b) i) = 2 \<and>
         ranked tk (b_outputs r) (snd b) i ! 0 \<noteq> ranked tk (b_outputs r) (snd b) i ! 1 \<and>
         ranked tk (b_outputs r) (snd b) i ! 0 < shape (b_outputs r) ! 1 \<and>
         ranked tk (b_outputs r) (snd b) i ! 1 < shape (b_outputs r) ! 1 \<and>
         rows (length (snd b)) (shape (b_outputs r) ! 1) (data (b_outputs r)) ! i
             ! (ranked tk (b_outputs r) (snd b) i ! 0)
           = Max (set (rows (length (snd b)) (shape (b_outputs r) ! 1) (data (b_outputs r)) ! i)) \<and>
         (\<forall>j<shape (b_outputs r) ! 1. j \<noteq> ranked tk (b_outputs r) (snd b) i ! 0 \<longrightarrow>
            rows (length (snd b)) (shape (b_outputs r) ! 1) (data (b_outputs r)) ! i ! j
              \<le> rows (length (snd b)) (shape (b_outputs r) ! 1) (data (b_outputs r)) ! i
                  ! (ranked tk (b_outputs r) (snd b) i ! 1))"
proof -
  let ?row = "rows (length (snd b)) (shape (b_outputs r) ! 1) (data (b_outputs r)) ! i"
  let ?k = "shape (b_outputs r) ! 1"
  have rk: "ranked tk (b_outputs r) (snd b) i = tk 2 ?row" by (simp add: ranked_def)
  from batch_counts_samples(2) [OF tk res wf n] i
  have lr: "length ?row = ?k" and k: "2 \<le> ?k" by simp_all
  from k lr have l2: "2 \<le> length ?row" by simp
  note two = contract_two [OF tk l2]
  have m1: "i \<in> set (top1_samples tk (b_outputs r) (snd b))
            \<longleftrightarrow> int (ranked tk (b_outputs r) (snd b) i ! 0) = snd b ! i"
    using i by (simp add: top1_samples_def)
  have m2: "i \<in> set (top2_samples tk (b_outputs r) (snd b))
            \<longleftrightarrow> int (ranked tk (b_outputs r) (snd b) i ! 0) = snd b ! i
              \<or> int (ranked tk (b_outputs r) (snd b) i ! 1) = snd b ! i"
    using i by (simp add: top2_samples_def)
  have c4: "length (ranked tk (b_outputs r) (snd b) i) = 2" unfolding rk by (rule two(1))
  have c5: "ranked tk (b_outputs r) (snd b) i ! 0 \<noteq> ranked tk (b_outputs r) (snd b) i ! 1"
    unfolding rk by (rule two(2))
  have c6: "ranked tk (b_outputs r) (snd b) i ! 0 < ?k" unfolding rk using two(3) lr by simp
  have c7: "ranked tk (b_outputs r) (snd b) i ! 1 < ?k" unfolding rk using two(4) lr by simp
  have c8: "?row ! (ranked tk (b_outputs r) (snd b) i ! 0) = Max (set ?row)"
    unfolding rk by (rule two(5))
  have c9: "\<forall>j<?k. j \<noteq> ranked tk (b_outputs r) (snd b) i ! 0 \<longrightarrow>
              ?row ! j \<le> ?row ! (ranked tk (b_outputs r) (snd b) i ! 1)"
    unfolding rk using two(6) lr by simp
  from m1 m2 lr c4 c5 c6 c7 c8 c9 show ?thesis by (intro conjI)
qed

lemma top1_subset_top2:
  "set (top1_samples tk out labels) \<subseteq> set (top2_samples tk out labels)"
  by (auto simp: top1_samples_def top2_samples_def)

text \<open>
  Claim C3. When every batch of a split is evaluated without an exception and the split
  has at least one sample, the printed top-1 accuracy is at most the printed top-2
  accuracy. When moreover \<open>topk\<close> keeps its documented contract and every batch gives a
  well-formed score matrix with one row per label, the two accuracies are the
  percentages, over the whole split, of the samples whose label is the class ranked
  first and of the samples whose label is the class ranked first or second for the
  sample's score vector (the scores that the forward pass returns for the batch); the
  samples counted for top-1 are among those counted for top-2; and the two ranked
  classes of a sample are distinct classes, the first holding the largest score of
  the vector and the second the largest score among the other classes.
\<close>

theorem top1_le_top2:
  assumes rs: "map (batch_result tk net lf nc) dl = map Inr rs" and pos: "0 < total_samples dl"
  shows "\<exists>acc1 acc2 rest.
     fst (evaluate tk net dl lf nc) =
       Print separator # Printf ''Top 1 Accuracy: %2.6f %%'' acc1
         # Printf ''Top 2 Accuracy: %2.6f %%'' acc2 # rest \<and>
     acc1 \<le> acc2 \<and>
     (topk_contract tk \<and>
      (\<forall>(b, r)\<in>set (zip dl rs).
         wf_tensor (b_outputs r) \<and> shape (b_outputs r) ! 0 = length (snd b)) \<longrightarrow>
        acc1 = 100 * real (sum_list (map (\<lambda>(b, r). length (top1_samples tk (b_outputs r) (snd b)))
                                      (zip dl rs))) / real (total_samples dl) \<and>
        acc2 = 100 * real (sum_list (map (\<lambda>(b, r). length (top2_samples tk (b_outputs r) (snd b)))
                                      (zip dl rs))) / real (total_samples dl) \<and>
        (\<forall>(b, r)\<in>set (zip dl rs).
           forward net nc (fst b) = Inr (b_outputs r) \<and>
           set (top1_samples tk (b_outputs r) (snd b))
             \<subseteq> set (top2_samples tk (b_outputs r) (snd b)) \<and>
           (\<forall>i<length (snd b).
              (i \<in> set (top1_samples tk (b_outputs r) (snd b))
                 \<longleftrightarrow> int (ranked tk (b_outputs r) (snd b) i ! 0) = snd b ! i) \<and>
              (i \<in> set (top2_samples tk (b_outputs r) (snd b))
                 \<longleftrightarrow> int (ranked tk (b_outputs r) (snd b) i ! 0) = snd b ! i
                   \<or> int (ranked tk (b_outputs r) (snd b) i ! 1) = snd b ! i) \<and>
              length (rows (length (snd b)) (shape (b_outputs r) ! 1) (data (b_outputs r)) ! i)
                = shape (b_outputs r) ! 1 \<and>
              length (ranked tk (b_outputs r) (snd b) i) = 2 \<and>
              ranked tk (b_outputs r) (snd b) i ! 0 \<noteq> ranked tk (b_outputs r) (snd b) i ! 1 \<and>
              ranked tk (b_outputs r) (snd b) i ! 0 < shape (b_outputs r) ! 1 \<and>
              ranked tk (b_outputs r) (snd b) i ! 1 < shape (b_outputs r) ! 1 \<and>
              rows (length (snd b)) (shape (b_outputs r) ! 1) (data (b_outputs r)) ! i
                  ! (ranked tk (b_outputs r) (snd b) i ! 0)
                = Max (set (rows (length (snd b)) (shape (b_outputs r) ! 1)
                              (data (b_outputs r)) ! i)) \<and>
              (\<forall>j<shape (b_outputs r) ! 1. j \<noteq> ranked tk (b_outputs r) (snd b) i ! 0 \<longrightarrow>
                 rows (length (snd b)) (shape (b_outputs r) ! 1) (data (b_outputs r)) ! i ! j
                   \<le> rows (length (snd b)) (shape (b_outputs r) ! 1) (data (b_outputs r)) ! i
                       ! (ranked tk (b_outputs r) (snd b) i ! 1)))))"
proof -
  define a1 where "a1 = 100 * real (sum_list (map (\<lambda>r. b_counts r ! 0) rs)) / real (total_samples dl)"
  define a2 where "a2 = 100 * real (sum_list (map (\<lambda>r. b_counts r ! 1) rs)) / real (total_samples dl)"
  from evaluate_head [OF rs pos] obtain rest0 where
    "fst (evaluate tk net dl lf nc) =
     [Print separator,
      Printf ''Top 1 Accuracy: %2.6f %%''
        (100 * real (sum_list (map (\<lambda>r. b_counts r ! 0) rs)) / real (total_samples dl)),
      Printf ''Top 2 Accuracy: %2.6f %%''
        (100 * real (sum_list (map (\<lambda>r. b_counts r ! 1) rs)) / real (total_samples dl)),
      Printf ''Loss: %2.6f'' (sum_list (map b_loss rs) / real (total_samples dl))] @ rest0" ..
  then have tr: "fst (evaluate tk net dl lf nc) =
       Print separator # Printf ''Top 1 Accuracy: %2.6f %%'' a1
         # Printf ''Top 2 Accuracy: %2.6f %%'' a2
         # (Printf ''Loss: %2.6f'' (sum_list (map b_loss rs) / real (total_samples dl)) # rest0)"
    by (simp add: a1_def a2_def)
  have le: "a1 \<le> a2"
    unfolding a1_def a2_def using results_counts_le [OF rs] pos
    by (simp add: divide_right_mono)
  have len: "length dl = length rs"
    using arg_cong [OF rs, of length] by simp
  have sem: "a1 = 100 * real (sum_list (map (\<lambda>(b, r). length (top1_samples tk (b_outputs r) (snd b)))
                                      (zip dl rs))) / real (total_samples dl) \<and>
        a2 = 100 * real (sum_list (map (\<lambda>(b, r). length (top2_samples tk (b_outputs r) (snd b)))
                                      (zip dl rs))) / real (total_samples dl) \<and>
        (\<forall>(b, r)\<in>set (zip dl rs).
           forward net nc (fst b) = Inr (b_outputs r) \<and>
           set (top1_samples tk (b_outputs r) (snd b))
             \<subseteq> set (top2_samples tk (b_outputs r) (snd b)) \<and>
           (\<forall>i<length (snd b).
              (i \<in> set (top1_samples tk (b_outputs r) (snd b))
                 \<longleftrightarrow> int (ranked tk (b_outputs r) (snd b) i ! 0) = snd b ! i) \<and>
              (i \<in> set (top2_samples tk (b_outputs r) (snd b))
                 \<longleftrightarrow> int (ranked tk (b_outputs r) (snd b) i ! 0) = snd b ! i
                   \<or> int (ranked tk (b_outputs r) (snd b) i ! 1) = snd b ! i) \<and>
              length (rows (length (snd b)) (shape (b_outputs r) ! 1) (data (b_outputs r)) ! i)
                = shape (b_outputs r) ! 1 \<and>
              length (ranked tk (b_outputs r) (snd b) i) = 2 \<and>
              ranked tk (b_outputs r) (snd b) i ! 0 \<noteq> ranked tk (b_outputs r) (snd b) i ! 1 \<and>
              ranked tk (b_outputs r) (snd b) i ! 0 < shape (b_outputs r) ! 1 \<and>
              ranked tk (b_outputs r) (snd b) i ! 1 < shape (b_outputs r) ! 1 \<and>
              rows (length (snd b)) (shape (b_outputs r) ! 1) (data (b_outputs r)) ! i
                  ! (ranked tk (b_outputs r) (snd b) i ! 0)
                = Max (set (rows (length (snd b)) (shape (b_outputs r) ! 1)
                              (data (b_outputs r)) ! i)) \<and>
              (\<forall>j<shape (b_outputs r) ! 1. j \<noteq> ranked tk (b_outputs r) (snd b) i ! 0 \<longrightarrow>
                 rows (length (snd b)) (shape (b_outputs r) ! 1) (data (b_outputs r)) ! i ! j
                   \<le> rows (length (snd b)) (shape (b_outputs r) ! 1) (data (b_outputs r)) ! i
                       ! (ranked tk (b_outputs r) (snd b) i ! 1))))"
    if tk: "topk_contract tk"
      and wf: "\<forall>(b, r)\<in>set (zip dl rs).
                 wf_tensor (b_outputs r) \<and> shape (b_outputs r) ! 0 = length (snd b)"
  proof (intro conjI)
    have cnt: "b_counts r = [length (top1_samples tk (b_outputs r) (snd b)),
                             length (top2_samples tk (b_outputs r) (snd b))]"
      if "(b, r) \<in> set (zip dl rs)" for b r
    proof -
      from wf that have "wf_tensor (b_outputs r)" "shape (b_outputs r) ! 0 = length (snd b)"
        by auto
      with batch_counts_samples(1) [OF tk zip_results [OF rs that]] show ?thesis by simp
    qed
    have "sum_list (map (\<lambda>r. b_counts r ! 0) rs)
          = sum_list (map (\<lambda>(b, r). b_counts r ! 0) (zip dl rs))"
      by (rule sum_zip_snd [OF len])
    also have "map (\<lambda>(b, r). b_counts r ! 0) (zip dl rs)
          = map (\<lambda>(b, r). length (top1_samples tk (b_outputs r) (snd b))) (zip dl rs)"
      by (rule map_cong [OF refl]) (auto simp: cnt)
    finally show "a1 = 100 * real (sum_list (map (\<lambda>(b, r). length (top1_samples tk (b_outputs r) (snd b)))
                                      (zip dl rs))) / real (total_samples dl)"
      by (simp add: a1_def)
    have "sum_list (map (\<lambda>r. b_counts r ! 1) rs)
          = sum_list (map (\<lambda>(b, r). b_counts r ! 1) (zip dl rs))"
      by (rule sum_zip_snd [OF len])
    also have "map (\<lambda>(b, r). b_counts r ! 1) (zip dl rs)
          = map (\<lambda>(b, r). length (top2_samples tk (b_outputs r) (snd b))) (zip dl rs)"
      by (rule map_cong [OF refl]) (auto simp: cnt)
    finally show "a2 = 100 * real (sum_list (map (\<lambda>(b, r). length (top2_samples tk (b_outputs r) (snd b)))
                                      (zip dl rs))) / real (total_samples dl)"
      by (simp add: a2_def)
  next
    show "\<forall>(b, r)\<in>set (zip dl rs).
           forward net nc (fst b) = Inr (b_outputs r) \<and>
           set (top1_samples tk (b_outputs r) (snd b))
             \<subseteq> set (top2_samples tk (b_outputs r) (snd b)) \<and>
           (\<forall>i<length (snd b).
              (i \<in> set (top1_samples tk (b_outputs r) (snd b))
                 \<longleftrightarrow> int (ranked tk (b_outputs r) (snd b) i ! 0) = snd b ! i) \<and>
              (i \<in> set (top2_samples tk (b_outputs r) (snd b))
                 \<longleftrightarrow> int (ranked tk (b_outputs r) (snd b) i ! 0) = snd b ! i
                   \<or> int (ranked tk (b_outputs r) (snd b) i ! 1) = snd b ! i) \<and>
              length (rows (length (snd b)) (shape (b_outputs r) ! 1) (data (b_outputs r)) ! i)
                = shape (b_outputs r) ! 1 \<and>
              length (ranked tk (b_outputs r) (snd b) i) = 2 \<and>
              ranked tk (b_outputs r) (snd b) i ! 0 \<noteq> ranked tk (b_outputs r) (snd b) i ! 1 \<and>
              ranked tk (b_outputs r) (snd b) i ! 0 < shape (b_outputs r) ! 1 \<and>
              ranked tk (b_outputs r) (snd b) i ! 1 < shape (b_outputs r) ! 1 \<and>
              rows (length (snd b)) (shape (b_outputs r) ! 1) (data (b_outputs r)) ! i
                  ! (ranked tk (b_outputs r) (snd b) i ! 0)
                = Max (set (rows (length (snd b)) (shape (b_outputs r) ! 1)
                              (data (b_outputs r)) ! i)) \<and>
              (\<forall>j<shape (b_outputs r) ! 1. j \<noteq> ranked tk (b_outputs r) (snd b) i ! 0 \<longrightarrow>
                 rows (length (snd b)) (shape (b_outputs r) ! 1) (data (b_outputs r)) ! i ! j
                   \<le> rows (length (snd b)) (shape (b_outputs r) ! 1) (data (b_outputs r)) ! i
                       ! (ranked tk (b_outputs r) (snd b) i ! 1)))"
    proof (rule ballI, rule case_prodI2, goal_cases)
      case (1 p b r)
      then have m: "(b, r) \<in> set (zip dl rs)" by simp
      from wf m have w: "wf_tensor (b_outputs r)" "shape (b_outputs r) ! 0 = length (snd b)"
        by auto
      note res = zip_results [OF rs m]
      have f: "forward net nc (fst b) = Inr (b_outputs r)"
        by (rule batch_result_parts(1) [OF res])
      show ?case
        apply (rule conjI)
         apply (rule f)
        apply (rule conjI)
         apply (rule top1_subset_top2)
        apply (intro allI impI)
        apply (erule sample_ranks [OF tk res w])
        done
    qed
  qed
  show ?thesis
    apply (rule exI [of _ a1])
    apply (rule exI [of _ a2])
    apply (rule exI)
    apply (rule conjI)
     apply (rule tr)
    apply (rule conjI)
     apply (rule le)
    apply (rule impI)
    apply (erule conjE)
    apply (erule (1) sem)
    done
qed


lemma crop_loader_wf:
  "\<forall>(b, r)\<in>set (zip crop_loader
             [\<lparr>b_outputs = \<lparr>shape = [2, 2], data = [2, 0, 0, 2]\<rparr>, b_loss = 1 / 2,
               b_counts = [1, 2], b_preds = [0, 1]\<rparr>,
              \<lparr>b_outputs = \<lparr>shape = [1, 2], data = [1, 3]\<rparr>, b_loss = 1 / 2,
               b_counts = [1, 1], b_preds = [1]\<rparr>]).
     wf_tensor (b_outputs r) \<and> shape (b_outputs r) ! 0 = length (snd b)"
  by code_simp

lemma crop_loader_top1:
  "sum_list (map (\<lambda>(b, r). length (top1_samples stable_topk (b_outputs r) (snd b)))
       (zip crop_loader
             [\<lparr>b_outputs = \<lparr>shape = [2, 2], data = [2, 0, 0, 2]\<rparr>, b_loss = 1 / 2,
               b_counts = [1, 2], b_preds = [0, 1]\<rparr>,
              \<lparr>b_outputs = \<lparr>shape = [1, 2], data = [1, 3]\<rparr>, b_loss = 1 / 2,
               b_counts = [1, 1], b_preds = [1]\<rparr>])) = 2"
  by code_simp

lemma crop_loader_top2:
  "sum_list (map (\<lambda>(b, r). length (top2_samples stable_topk (b_outputs r) (snd b)))
       (zip crop_loader
             [\<lparr>b_outputs = \<lparr>shape = [2, 2], data = [2, 0, 0, 2]\<rparr>, b_loss = 1 / 2,
               b_counts = [1, 2], b_preds = [0, 1]\<rparr>,
              \<lparr>b_outputs = \<lparr>shape = [1, 2], data = [1, 3]\<rparr>, b_loss = 1 / 2,
               b_counts = [1, 1], b_preds = [1]\<rparr>])) = 3"
  by code_simp

lemma crop_batch_ranking:
  "top1_samples stable_topk \<lparr>shape = [2, 2], data = [2, 0, 0, 2]\<rparr> [0, 0] = [0] \<and>
   top2_samples stable_topk \<lparr>shape = [2, 2], data = [2, 0, 0, 2]\<rparr> [0, 0] = [0, 1] \<and>
   ranked stable_topk \<lparr>shape = [2, 2], data = [2, 0, 0, 2]\<rparr> [0, 0] 1 = [1, 0]"
  by code_simp

theorem top1_le_top2_witness:
  "map (batch_result stable_topk flat_net half_loss True) crop_loader =
     map Inr [\<lparr>b_outputs = \<lparr>shape = [2, 2], data = [2, 0, 0, 2]\<rparr>, b_loss = 1 / 2,
               b_counts = [1, 2], b_preds = [0, 1]\<rparr>,
              \<lparr>b_outputs = \<lparr>shape = [1, 2], data = [1, 3]\<rparr>, b_loss = 1 / 2,
               b_counts = [1, 1], b_preds = [1]\<rparr>] \<and>
   0 < total_samples crop_loader \<and>
   topk_contract stable_topk \<and>
   (\<exists>acc1 acc2 rest. fst (evaluate stable_topk flat_net crop_loader half_loss True) =
           Print separator # Printf ''Top 1 Accuracy: %2.6f %%'' acc1
             # Printf ''Top 2 Accuracy: %2.6f %%'' acc2 # rest \<and>
         acc1 \<le> acc2 \<and> acc1 = 200 / 3 \<and> acc2 = 100) \<and>
   top1_samples stable_topk \<lparr>shape = [2, 2], data = [2, 0, 0, 2]\<rparr> [0, 0] = [0] \<and>
   top2_samples stable_topk \<lparr>shape = [2, 2], data = [2, 0, 0, 2]\<rparr> [0, 0] = [0, 1] \<and>
   ranked stable_topk \<lparr>shape = [2, 2], data = [2, 0, 0, 2]\<rparr> [0, 0] 1 = [1, 0]"
proof -
  have h2: "0 < total_samples crop_loader" by (simp add: crop_loader_samples)
  from top1_le_top2 [OF crop_loader_results h2] obtain a1 a2 rest where
    tr: "fst (evaluate stable_topk flat_net crop_loader half_loss True) =
           Print separator # Printf ''Top 1 Accuracy: %2.6f %%'' a1
             # Printf ''Top 2 Accuracy: %2.6f %%'' a2 # rest"
    and le: "a1 \<le> a2"
    and sem: "topk_contract stable_topk \<and>
      (\<forall>(b, r)\<in>set (zip crop_loader
             [\<lparr>b_outputs = \<lparr>shape = [2, 2], data = [2, 0, 0, 2]\<rparr>, b_loss = 1 / 2,
               b_counts = [1, 2], b_preds = [0, 1]\<rparr>,
              \<lparr>b_outputs = \<lparr>shape = [1, 2], data = [1, 3]\<rparr>, b_loss = 1 / 2,
               b_counts = [1, 1], b_preds = [1]\<rparr>]).
         wf_tensor (b_outputs r) \<and> shape (b_outputs r) ! 0 = length (snd b)) \<longrightarrow>
        a1 = 100 * real (sum_list (map (\<lambda>(b, r). length (top1_samples stable_topk (b_outputs r) (snd b)))
               (zip crop_loader
             [\<lparr>b_outputs = \<lparr>shape = [2, 2], data = [2, 0, 0, 2]\<rparr>, b_loss = 1 / 2,
               b_counts = [1, 2], b_preds = [0, 1]\<rparr>,
              \<lparr>b_outputs = \<lparr>shape = [1, 2], data = [1, 3]\<rparr>, b_loss = 1 / 2,
               b_counts = [1, 1], b_preds = [1]\<rparr>]))) / real (total_samples crop_loader) \<and>
        a2 = 100 * real (sum_list (map (\<lambda>(b, r). length (top2_samples stable_topk (b_outputs r) (snd b)))
               (zip crop_loader
             [\<lparr>b_outputs = \<lparr>shape = [2, 2], data = [2, 0, 0, 2]\<rparr>, b_loss = 1 / 2,
               b_counts = [1, 2], b_preds = [0, 1]\<rparr>,
              \<lparr>b_outputs = \<lparr>shape = [1, 2], data = [1, 3]\<rparr>, b_loss = 1 / 2,
               b_counts = [1, 1], b_preds = [1]\<rparr>]))) / real (total_samples crop_loader)"
    by blast
  from sem stable_topk_contract crop_loader_wf
  have "a1 = 100 * real (sum_list (map (\<lambda>(b, r). length (top1_samples stable_topk (b_outputs r) (snd b)))
               (zip crop_loader
             [\<lparr>b_outputs = \<lparr>shape = [2, 2], data = [2, 0, 0, 2]\<rparr>, b_loss = 1 / 2,
               b_counts = [1, 2], b_preds = [0, 1]\<rparr>,
              \<lparr>b_outputs = \<lparr>shape = [1, 2], data = [1, 3]\<rparr>, b_loss = 1 / 2,
               b_counts = [1, 1], b_preds = [1]\<rparr>]))) / real (total_samples crop_loader)"
    and "a2 = 100 * real (sum_list (map (\<lambda>(b, r). length (top2_samples stable_topk (b_outputs r) (snd b)))
               (zip crop_loader
             [\<lparr>b_outputs = \<lparr>shape = [2, 2], data = [2, 0, 0, 2]\<rparr>, b_loss = 1 / 2,
               b_counts = [1, 2], b_preds = [0, 1]\<rparr>,
              \<lparr>b_outputs = \<lparr>shape = [1, 2], data = [1, 3]\<rparr>, b_loss = 1 / 2,
               b_counts = [1, 1], b_preds = [1]\<rparr>]))) / real (total_samples crop_loader)"
    by blast+
  then have a1: "a1 = 200 / 3" and a2: "a2 = 100"
    unfolding crop_loader_top1 crop_loader_top2 crop_loader_samples by simp_all
  from tr le a1 a2 have ex: "\<exists>acc1 acc2 rest. fst (evaluate stable_topk flat_net crop_loader half_loss True) =
           Print separator # Printf ''Top 1 Accuracy: %2.6f %%'' acc1
             # Printf ''Top 2 Accuracy: %2.6f %%'' acc2 # rest \<and>
         acc1 \<le> acc2 \<and> acc1 = 200 / 3 \<and> acc2 = 100"
    by blast
  note cr = crop_loader_results
  note ct = stable_topk_contract
  note r1 = crop_batch_ranking [THEN conjunct1]
  note r2 = crop_batch_ranking [THEN conjunct2, THEN conjunct1]
  note r3 = crop_batch_ranking [THEN conjunct2, THEN conjunct2]
  from cr h2 ct ex r1 r2 r3 show ?thesis by (intro conjI)
qed

subsection \<open>The crop flag and the rank of the batches\<close>

lemma forward_rank:
  "length (shape x) \<noteq> 5 \<Longrightarrow> forward net True x = Inl ValueError"
  by (simp add: forward_def)

lemma step_rank:
  "length (shape (fst b)) \<noteq> 5 \<Longrightarrow> step tk net lf True s b = Inl ValueError"
  by (cases b) (simp add: step_def forward_rank bind_err_def)

lemma run_batches_rank:
  assumes "\<exists>b\<in>set dl. length (shape (fst b)) \<noteq> 5"
  shows "\<exists>e. run_batches tk net lf True s dl = Inl e"
  using assms
proof (induction dl arbitrary: s)
  case Nil
  then show ?case by simp
next
  case (Cons b dl)
  show ?case
  proof (cases "step tk net lf True s b")
    case (Inl e)
    then show ?thesis by simp
  next
    case (Inr s')
    then have "length (shape (fst b)) = 5" using step_rank [where b = b and tk = tk and net = net and lf = lf and s = s] by auto
    with Cons.prems have "\<exists>b\<in>set dl. length (shape (fst b)) \<noteq> 5" by auto
    from Cons.IH [OF this, of s'] Inr show ?thesis by simp
  qed
qed

lemma bind_res_Inl: "bind_res (tr, Inl e) f = (tr, Inl e)"
  by (simp add: bind_res_def)

lemma bind_res_emit: "bind_res (emit evs) f = (evs @ fst (f ()), snd (f ()))"
  by (simp add: bind_res_def emit_def split: prod.splits)

lemma bind_res_lift_Inr: "bind_res (lift_err (Inr x)) f = f x"
  by (simp add: bind_res_def lift_err_def split: prod.splits)

lemma bind_res_lift_Inl: "bind_res (lift_err (Inl e)) f = ([], Inl e)"
  by (simp add: bind_res_def lift_err_def)

text \<open>
  Claim C10. With the crop flag set, \<open>evaluate\<close> needs every batch to have exactly five
  dimensions: if some batch of the loader has another rank, \<open>evaluate\<close> prints nothing
  and ends in an exception, which is the ValueError of the shape unpacking when the
  first batch is such a batch. The flag is set by default, and \<open>main\<close> builds its
  loaders with \<open>augment=False\<close>: once the model is loaded, a training loader with a
  batch of another rank aborts the run right after the \<open>Train\<close> header.
\<close>

theorem ncrop_requires_rank5:
  assumes "\<exists>b\<in>set dl. length (shape (fst b)) \<noteq> 5"
  shows "(\<exists>e. evaluate tk net dl lf True = ([], Inl e)) \<and>
         (\<forall>b rest. dl = b # rest \<and> length (shape (fst b)) \<noteq> 5
            \<longrightarrow> evaluate tk net dl lf True = ([], Inl ValueError)) \<and>
         Ncrop default_args \<and>
         (get_model env (arch a) = Inr m \<and> torch_load env (checkpoint a) = Inr ck \<and>
          ck ''model_state_dict'' = Some sd \<and> load_state_dict env m sd = Inr m' \<and>
          get_dataloaders env False = Inr (dl, vl, te) \<and> Ncrop a
          \<longrightarrow> (\<exists>e. main a env = ([Print (show_model env m), Print ''Train''], Inl e)))"
proof -
  from run_batches_rank [OF assms] obtain e
    where e: "run_batches tk net lf True init_counters dl = Inl e" ..
  have first: "\<exists>e. evaluate tk net dl lf True = ([], Inl e)"
    using evaluate_loop_error [OF e] by blast
  have second: "evaluate tk net dl lf True = ([], Inl ValueError)"
    if "dl = b # rest" "length (shape (fst b)) \<noteq> 5" for b rest
    using that by (simp add: evaluate_cases step_rank)
  have third: "Ncrop default_args" by (simp add: default_args_def)
  have fourth: "\<exists>e. main a env = ([Print (show_model env m), Print ''Train''], Inl e)"
    if "get_model env (arch a) = Inr m" "torch_load env (checkpoint a) = Inr ck"
      "ck ''model_state_dict'' = Some sd" "load_state_dict env m sd = Inr m'"
      "get_dataloaders env False = Inr (dl, vl, te)" "Ncrop a"
  proof -
    from run_batches_rank [OF assms] obtain e'
      where "run_batches (tensor_topk env) (run_model env m') (cross_entropy env) True init_counters dl = Inl e'" ..
    from evaluate_loop_error [OF this] that show ?thesis
      by (simp add: main_def bind_res_lift_Inr bind_res_emit lookup_key_def bind_res_Inl)
  qed
  from first second third fourth show ?thesis by blast
qed


theorem ncrop_requires_rank5_witness:
  "length (shape (fst (plain_batch, [0, 1 :: int]))) \<noteq> 5 \<and>
   evaluate stable_topk flat_net plain_loader half_loss True = ([], Inl ValueError) \<and>
   Ncrop default_args \<and>
   main default_args (demo_env plain_loader)
     = ([Print ''ResNet18'', Print ''Train''], Inl ValueError)"
proof -
  have h: "\<exists>b\<in>set plain_loader. length (shape (fst b)) \<noteq> 5"
    by (simp add: plain_loader_def plain_batch_def)
  have r: "length (shape (fst (plain_batch, [0, 1 :: int]))) \<noteq> 5"
    by (simp add: plain_batch_def)
  have mv: "main default_args (demo_env plain_loader)
     = ([Print ''ResNet18'', Print ''Train''], Inl ValueError)"
    by code_simp
  note t = ncrop_requires_rank5 [OF h, where tk = stable_topk and net = flat_net and lf = half_loss
      and a = default_args and env = "demo_env plain_loader"]
  from t have "evaluate stable_topk flat_net plain_loader half_loss True = ([], Inl ValueError)"
    using r by (simp add: plain_loader_def)
  moreover from t have "Ncrop default_args" by blast
  ultimately show ?thesis using r mv by blast
qed

subsection \<open>The order of a complete run\<close>

lemma bind_res_InrE:
  assumes "bind_res m f = (tr, Inr y)"
  obtains tr1 x tr2 where "m = (tr1, Inr x)" and "f x = (tr2, Inr y)" and "tr = tr1 @ tr2"
  using assms by (auto simp: bind_res_def split: prod.splits sum.splits)

lemma evaluate_milestones:
  assumes "evaluate tk net dl lf nc = (tr, Inr r)"
  shows "milestones tr = [Print separator]"
  using assms
  by (auto simp: evaluate_cases Let_def milestones_def split: sum.splits if_splits)

lemma draw_cells_milestones:
  "milestones (fst (draw_cells cm ps)) = []"
proof (induction ps)
  case Nil
  then show ?case by (simp add: milestones_def)
next
  case (Cons p ps)
  obtain i j where p: "p = (i, j)" by (cases p)
  show ?case
  proof (cases "cm_index cm j i")
    case (Inl e)
    then show ?thesis by (simp add: p bind_res_lift_Inl milestones_def)
  next
    case (Inr v)
    then show ?thesis using Cons.IH
      by (simp add: p bind_res_lift_Inr bind_res_emit milestones_def)
  qed
qed

lemma draw_milestones:
  assumes "draw_confusion_matrix gt pred names title (Some path) dpi = (tr, Inr u)"
  shows "\<exists>cm. confusion_matrix_true gt pred = Inr cm \<and>
              milestones tr = [Imshow cm ''Blues'', Savefig path dpi]"
proof -
  from assms obtain cm where cm: "confusion_matrix_true gt pred = Inr cm"
    by (cases "confusion_matrix_true gt pred")
       (auto simp: draw_confusion_matrix_def bind_res_lift_Inl)
  from assms obtain tc where tc: "draw_cells cm (cells (length names)) = (tc, Inr ())"
    and tr: "tr = [Imshow cm ''Blues'', Title title, Xlabel ''Predict label'',
                   Ylabel ''Truth label'', Yticks [0..<length names] names,
                   Xticks [0..<length names] names 45, TightLayout, Colorbar]
                  @ tc @ [Savefig path dpi]"
    by (auto simp: draw_confusion_matrix_def cm bind_res_lift_Inr bind_res_emit emit_def
             elim!: bind_res_InrE)
  have "milestones tc = []" using draw_cells_milestones [of cm "cells (length names)"] tc
    by simp
  then show ?thesis using cm by (simp add: tr milestones_def)
qed


lemma milestones_append: "milestones (xs @ ys) = milestones xs @ milestones ys"
  by (simp add: milestones_def)

lemma lift_err_Inr: "lift_err m = (tr, Inr x) \<Longrightarrow> tr = [] \<and> m = Inr x"
  by (simp add: lift_err_def)

lemma emit_Inr: "emit evs = (tr, Inr x) \<Longrightarrow> tr = evs"
  by (simp add: emit_def)

lemma emit_then:
  assumes "bind_res (emit evs) f = (tr, Inr u)"
  obtains rest where "f () = (rest, Inr u)" and "tr = evs @ rest"
  using assms by (cases "f ()") (auto simp: bind_res_def emit_def)

lemma split_segment:
  assumes "bind_res (emit [Print h]) (\<lambda>_.
             bind_res (evaluate tk net l lf nc) (\<lambda>(gt, pred).
             bind_res (draw_confusion_matrix gt pred names title (Some path) dpi) k))
           = (tr, Inr u)"
  obtains t r d x rest where "evaluate tk net l lf nc = (t, Inr r)"
    and "draw_confusion_matrix (fst r) (snd r) names title (Some path) dpi = (d, Inr x)"
    and "k x = (rest, Inr u)" and "tr = [Print h] @ t @ d @ rest"
proof -
  from assms obtain tr2 where
    a: "bind_res (evaluate tk net l lf nc) (\<lambda>(gt, pred).
          bind_res (draw_confusion_matrix gt pred names title (Some path) dpi) k)
        = (tr2, Inr u)" and tr: "tr = [Print h] @ tr2"
    by (rule emit_then)
  from a obtain t r tr3 where e: "evaluate tk net l lf nc = (t, Inr r)"
    and b: "bind_res (draw_confusion_matrix (fst r) (snd r) names title (Some path) dpi) k
            = (tr3, Inr u)" and tr2: "tr2 = t @ tr3"
    by (elim bind_res_InrE) (auto split: prod.splits)
  from b obtain d x rest
    where "draw_confusion_matrix (fst r) (snd r) names title (Some path) dpi = (d, Inr x)"
      and "k x = (rest, Inr u)" and "tr3 = d @ rest"
    by (elim bind_res_InrE)
  with e tr tr2 that show thesis by simp
qed

lemma last_segment:
  assumes "bind_res (emit [Print h]) (\<lambda>_.
             bind_res (evaluate tk net l lf nc) (\<lambda>(gt, pred).
             draw_confusion_matrix gt pred names title (Some path) dpi))
           = (tr, Inr u)"
  obtains t r d where "evaluate tk net l lf nc = (t, Inr r)"
    and "draw_confusion_matrix (fst r) (snd r) names title (Some path) dpi = (d, Inr u)"
    and "tr = [Print h] @ t @ d"
proof -
  from assms obtain tr2 where
    a: "bind_res (evaluate tk net l lf nc) (\<lambda>(gt, pred).
          draw_confusion_matrix gt pred names title (Some path) dpi)
        = (tr2, Inr u)" and tr: "tr = [Print h] @ tr2"
    by (rule emit_then)
  from a obtain t r d where e: "evaluate tk net l lf nc = (t, Inr r)"
    and "draw_confusion_matrix (fst r) (snd r) names title (Some path) dpi = (d, Inr u)"
    and "tr2 = t @ d"
    by (elim bind_res_InrE) (auto split: prod.splits)
  with tr that show thesis by simp
qed

lemma main_loading:
  assumes "main a env = (tr, Inr u)"
  obtains m m' tl vl te tr' where "get_dataloaders env False = Inr (tl, vl, te)"
    and "tr = [Print (show_model env m)] @ tr'"
    and "bind_res (emit [Print ''Train'']) (\<lambda>_.
          bind_res (evaluate (tensor_topk env) (run_model env m') tl (cross_entropy env) (Ncrop a)) (\<lambda>(gt, pred).
          bind_res (draw_confusion_matrix gt pred [''Angry'', ''Happy'', ''Sad'', ''Neutral'']
                      ''Confusion Matrix on Training Set''
                      (Some ''Confusion Matrix on Training Set.png'') 300) (\<lambda>_.
          bind_res (emit [Clf]) (\<lambda>_.
          bind_res (emit [Print ''Val'']) (\<lambda>_.
          bind_res (evaluate (tensor_topk env) (run_model env m') vl (cross_entropy env) (Ncrop a)) (\<lambda>(gt, pred).
          bind_res (draw_confusion_matrix gt pred [''Angry'', ''Happy'', ''Sad'', ''Neutral'']
                      ''Confusion Matrix on Val Set''
                      (Some ''Confusion Matrix on Val Set.png'') 300) (\<lambda>_.
          bind_res (emit [Clf]) (\<lambda>_.
          bind_res (emit [Print ''Test'']) (\<lambda>_.
          bind_res (evaluate (tensor_topk env) (run_model env m') te (cross_entropy env) (Ncrop a)) (\<lambda>(gt, pred).
          draw_confusion_matrix gt pred [''Angry'', ''Happy'', ''Sad'', ''Neutral'']
            ''Confusion Matrix on Test Set''
            (Some ''Confusion Matrix on Test Set.png'') 300)))))))))) = (tr', Inr u)"
proof -
  from assms [unfolded main_def] obtain t1 m k1 where
    "lift_err (get_model env (arch a)) = (t1, Inr m)" and k1: "tr = t1 @ k1"
    and r1: "bind_res (emit [Print (show_model env m)]) (\<lambda>_.
       bind_res (lift_err (torch_load env (checkpoint a))) (\<lambda>ckpt.
       bind_res (lift_err (lookup_key ckpt ''model_state_dict'')) (\<lambda>sd.
       bind_res (lift_err (load_state_dict env m sd)) (\<lambda>model.
       bind_res (lift_err (get_dataloaders env False)) (\<lambda>(train_loader, val_loader, test_loader).
       bind_res (emit [Print ''Train'']) (\<lambda>_.
          bind_res (evaluate (tensor_topk env) (run_model env model) train_loader (cross_entropy env) (Ncrop a)) (\<lambda>(gt, pred).
          bind_res (draw_confusion_matrix gt pred [''Angry'', ''Happy'', ''Sad'', ''Neutral'']
                      ''Confusion Matrix on Training Set''
                      (Some ''Confusion Matrix on Training Set.png'') 300) (\<lambda>_.
          bind_res (emit [Clf]) (\<lambda>_.
          bind_res (emit [Print ''Val'']) (\<lambda>_.
          bind_res (evaluate (tensor_topk env) (run_model env model) val_loader (cross_entropy env) (Ncrop a)) (\<lambda>(gt, pred).
          bind_res (draw_confusion_matrix gt pred [''Angry'', ''Happy'', ''Sad'', ''Neutral'']
                      ''Confusion Matrix on Val Set''
                      (Some ''Confusion Matrix on Val Set.png'') 300) (\<lambda>_.
          bind_res (emit [Clf]) (\<lambda>_.
          bind_res (emit [Print ''Test'']) (\<lambda>_.
          bind_res (evaluate (tensor_topk env) (run_model env model) test_loader (cross_entropy env) (Ncrop a)) (\<lambda>(gt, pred).
          draw_confusion_matrix gt pred [''Angry'', ''Happy'', ''Sad'', ''Neutral'']
            ''Confusion Matrix on Test Set''
            (Some ''Confusion Matrix on Test Set.png'') 300))))))))))))))) = (k1, Inr u)"
    by (rule bind_res_InrE)
  then have t1: "t1 = []" by (simp add: lift_err_def)
  from r1 obtain t2 x2 k2 where "emit [Print (show_model env m)] = (t2, Inr x2)"
    and k2: "k1 = t2 @ k2"
    and r2: "bind_res (lift_err (torch_load env (checkpoint a))) (\<lambda>ckpt.
       bind_res (lift_err (lookup_key ckpt ''model_state_dict'')) (\<lambda>sd.
       bind_res (lift_err (load_state_dict env m sd)) (\<lambda>model.
       bind_res (lift_err (get_dataloaders env False)) (\<lambda>(train_loader, val_loader, test_loader).
       bind_res (emit [Print ''Train'']) (\<lambda>_.
          bind_res (evaluate (tensor_topk env) (run_model env model) train_loader (cross_entropy env) (Ncrop a)) (\<lambda>(gt, pred).
          bind_res (draw_confusion_matrix gt pred [''Angry'', ''Happy'', ''Sad'', ''Neutral'']
                      ''Confusion Matrix on Training Set''
                      (Some ''Confusion Matrix on Training Set.png'') 300) (\<lambda>_.
          bind_res (emit [Clf]) (\<lambda>_.
          bind_res (emit [Print ''Val'']) (\<lambda>_.
          bind_res (evaluate (tensor_topk env) (run_model env model) val_loader (cross_entropy env) (Ncrop a)) (\<lambda>(gt, pred).
          bind_res (draw_confusion_matrix gt pred [''Angry'', ''Happy'', ''Sad'', ''Neutral'']
                      ''Confusion Matrix on Val Set''
                      (Some ''Confusion Matrix on Val Set.png'') 300) (\<lambda>_.
          bind_res (emit [Clf]) (\<lambda>_.
          bind_res (emit [Print ''Test'']) (\<lambda>_.
          bind_res (evaluate (tensor_topk env) (run_model env model) test_loader (cross_entropy env) (Ncrop a)) (\<lambda>(gt, pred).
          draw_confusion_matrix gt pred [''Angry'', ''Happy'', ''Sad'', ''Neutral'']
            ''Confusion Matrix on Test Set''
            (Some ''Confusion Matrix on Test Set.png'') 300)))))))))))))) = (k2, Inr u)"
    by (rule bind_res_InrE)
  then have t2: "t2 = [Print (show_model env m)]" by (simp add: emit_def)
  from r2 obtain ck sd m' ld k3 where "lift_err (get_dataloaders env False) = ([], Inr ld)"
    and r3: "(case ld of (train_loader, val_loader, test_loader) \<Rightarrow>
       bind_res (emit [Print ''Train'']) (\<lambda>_.
          bind_res (evaluate (tensor_topk env) (run_model env m') train_loader (cross_entropy env) (Ncrop a)) (\<lambda>(gt, pred).
          bind_res (draw_confusion_matrix gt pred [''Angry'', ''Happy'', ''Sad'', ''Neutral'']
                      ''Confusion Matrix on Training Set''
                      (Some ''Confusion Matrix on Training Set.png'') 300) (\<lambda>_.
          bind_res (emit [Clf]) (\<lambda>_.
          bind_res (emit [Print ''Val'']) (\<lambda>_.
          bind_res (evaluate (tensor_topk env) (run_model env m') val_loader (cross_entropy env) (Ncrop a)) (\<lambda>(gt, pred).
          bind_res (draw_confusion_matrix gt pred [''Angry'', ''Happy'', ''Sad'', ''Neutral'']
                      ''Confusion Matrix on Val Set''
                      (Some ''Confusion Matrix on Val Set.png'') 300) (\<lambda>_.
          bind_res (emit [Clf]) (\<lambda>_.
          bind_res (emit [Print ''Test'']) (\<lambda>_.
          bind_res (evaluate (tensor_topk env) (run_model env m') test_loader (cross_entropy env) (Ncrop a)) (\<lambda>(gt, pred).
          draw_confusion_matrix gt pred [''Angry'', ''Happy'', ''Sad'', ''Neutral'']
            ''Confusion Matrix on Test Set''
            (Some ''Confusion Matrix on Test Set.png'') 300))))))))))) = (k3, Inr u)"
    and k3: "k2 = k3"
    by (elim bind_res_InrE) (auto simp: lift_err_def)
  obtain tl vl te where ld: "ld = (tl, vl, te)" by (cases ld) auto
  show thesis
  proof (rule that [of tl vl te m k2 m'])
    show "get_dataloaders env False = Inr (tl, vl, te)"
      using \<open>lift_err (get_dataloaders env False) = ([], Inr ld)\<close> ld by (simp add: lift_err_def)
    show "tr = [Print (show_model env m)] @ k2" using k1 k2 t1 t2 by simp
    show "bind_res (emit [Print ''Train'']) (\<lambda>_.
          bind_res (evaluate (tensor_topk env) (run_model env m') tl (cross_entropy env) (Ncrop a)) (\<lambda>(gt, pred).
          bind_res (draw_confusion_matrix gt pred [''Angry'', ''Happy'', ''Sad'', ''Neutral'']
                      ''Confusion Matrix on Training Set''
                      (Some ''Confusion Matrix on Training Set.png'') 300) (\<lambda>_.
          bind_res (emit [Clf]) (\<lambda>_.
          bind_res (emit [Print ''Val'']) (\<lambda>_.
          bind_res (evaluate (tensor_topk env) (run_model env m') vl (cross_entropy env) (Ncrop a)) (\<lambda>(gt, pred).
          bind_res (draw_confusion_matrix gt pred [''Angry'', ''Happy'', ''Sad'', ''Neutral'']
                      ''Confusion Matrix on Val Set''
                      (Some ''Confusion Matrix on Val Set.png'') 300) (\<lambda>_.
          bind_res (emit [Clf]) (\<lambda>_.
          bind_res (emit [Print ''Test'']) (\<lambda>_.
          bind_res (evaluate (tensor_topk env) (run_model env m') te (cross_entropy env) (Ncrop a)) (\<lambda>(gt, pred).
          draw_confusion_matrix gt pred [''Angry'', ''Happy'', ''Sad'', ''Neutral'']
            ''Confusion Matrix on Test Set''
            (Some ''Confusion Matrix on Test Set.png'') 300)))))))))) = (k2, Inr u)"
      using r3 ld k3 by simp
  qed
qed

text \<open>
  Claim C8. A run of \<open>main\<close> that completes evaluates the training, validation and test
  loaders returned by the dataloader factory, in this order and each to the end before
  the next one starts. After the printed model its milestones are, for each split in
  turn, the section header (\<open>Train\<close>, \<open>Val\<close>, \<open>Test\<close>), the separator that opens the
  metrics of the split, the heat map of the row-normalised confusion matrix of the
  split's label sequences, and the saving of the figure at 300 DPI under the name of the
  split; the drawing surface is reset after the first and after the second rendering.
  Exactly three figures are saved.
\<close>

theorem main_milestones:
  assumes "main a env = (tr, Inr u)"
  shows "\<exists>m m' tl vl te r1 r2 r3 cm1 cm2 cm3.
           get_dataloaders env False = Inr (tl, vl, te) \<and>
           snd (evaluate (tensor_topk env) (run_model env m') tl (cross_entropy env) (Ncrop a)) = Inr r1 \<and>
           snd (evaluate (tensor_topk env) (run_model env m') vl (cross_entropy env) (Ncrop a)) = Inr r2 \<and>
           snd (evaluate (tensor_topk env) (run_model env m') te (cross_entropy env) (Ncrop a)) = Inr r3 \<and>
           confusion_matrix_true (fst r1) (snd r1) = Inr cm1 \<and>
           confusion_matrix_true (fst r2) (snd r2) = Inr cm2 \<and>
           confusion_matrix_true (fst r3) (snd r3) = Inr cm3 \<and>
           milestones tr =
             [Print (show_model env m),
              Print ''Train'', Print separator, Imshow cm1 ''Blues'',
              Savefig ''Confusion Matrix on Training Set.png'' 300, Clf,
              Print ''Val'', Print separator, Imshow cm2 ''Blues'',
              Savefig ''Confusion Matrix on Val Set.png'' 300, Clf,
              Print ''Test'', Print separator, Imshow cm3 ''Blues'',
              Savefig ''Confusion Matrix on Test Set.png'' 300]"
proof -
  from assms obtain m m' tl vl te tr' where
    dl: "get_dataloaders env False = Inr (tl, vl, te)"
    and tr0: "tr = [Print (show_model env m)] @ tr'"
    and body: "bind_res (emit [Print ''Train'']) (\<lambda>_.
          bind_res (evaluate (tensor_topk env) (run_model env m') tl (cross_entropy env) (Ncrop a)) (\<lambda>(gt, pred).
          bind_res (draw_confusion_matrix gt pred [''Angry'', ''Happy'', ''Sad'', ''Neutral'']
                      ''Confusion Matrix on Training Set''
                      (Some ''Confusion Matrix on Training Set.png'') 300) (\<lambda>_.
          bind_res (emit [Clf]) (\<lambda>_.
          bind_res (emit [Print ''Val'']) (\<lambda>_.
          bind_res (evaluate (tensor_topk env) (run_model env m') vl (cross_entropy env) (Ncrop a)) (\<lambda>(gt, pred).
          bind_res (draw_confusion_matrix gt pred [''Angry'', ''Happy'', ''Sad'', ''Neutral'']
                      ''Confusion Matrix on Val Set''
                      (Some ''Confusion Matrix on Val Set.png'') 300) (\<lambda>_.
          bind_res (emit [Clf]) (\<lambda>_.
          bind_res (emit [Print ''Test'']) (\<lambda>_.
          bind_res (evaluate (tensor_topk env) (run_model env m') te (cross_entropy env) (Ncrop a)) (\<lambda>(gt, pred).
          draw_confusion_matrix gt pred [''Angry'', ''Happy'', ''Sad'', ''Neutral'']
            ''Confusion Matrix on Test Set''
            (Some ''Confusion Matrix on Test Set.png'') 300)))))))))) = (tr', Inr u)"
    by (rule main_loading)
  from body obtain t1 r1 d1 u1 rest1 where
    e1: "evaluate (tensor_topk env) (run_model env m') tl (cross_entropy env) (Ncrop a) = (t1, Inr r1)"
    and g1: "draw_confusion_matrix (fst r1) (snd r1) [''Angry'', ''Happy'', ''Sad'', ''Neutral'']
               ''Confusion Matrix on Training Set''
               (Some ''Confusion Matrix on Training Set.png'') 300 = (d1, Inr u1)"
    and k1: "bind_res (emit [Clf]) (\<lambda>_.
          bind_res (emit [Print ''Val'']) (\<lambda>_.
          bind_res (evaluate (tensor_topk env) (run_model env m') vl (cross_entropy env) (Ncrop a)) (\<lambda>(gt, pred).
          bind_res (draw_confusion_matrix gt pred [''Angry'', ''Happy'', ''Sad'', ''Neutral'']
                      ''Confusion Matrix on Val Set''
                      (Some ''Confusion Matrix on Val Set.png'') 300) (\<lambda>_.
          bind_res (emit [Clf]) (\<lambda>_.
          bind_res (emit [Print ''Test'']) (\<lambda>_.
          bind_res (evaluate (tensor_topk env) (run_model env m') te (cross_entropy env) (Ncrop a)) (\<lambda>(gt, pred).
          draw_confusion_matrix gt pred [''Angry'', ''Happy'', ''Sad'', ''Neutral'']
            ''Confusion Matrix on Test Set''
            (Some ''Confusion Matrix on Test Set.png'') 300))))))) = (rest1, Inr u)"
    and tr1: "tr' = [Print ''Train''] @ t1 @ d1 @ rest1"
    by (rule split_segment)
  from k1 obtain rest1' where body2: "bind_res (emit [Print ''Val'']) (\<lambda>_.
          bind_res (evaluate (tensor_topk env) (run_model env m') vl (cross_entropy env) (Ncrop a)) (\<lambda>(gt, pred).
          bind_res (draw_confusion_matrix gt pred [''Angry'', ''Happy'', ''Sad'', ''Neutral'']
                      ''Confusion Matrix on Val Set''
                      (Some ''Confusion Matrix on Val Set.png'') 300) (\<lambda>_.
          bind_res (emit [Clf]) (\<lambda>_.
          bind_res (emit [Print ''Test'']) (\<lambda>_.
          bind_res (evaluate (tensor_topk env) (run_model env m') te (cross_entropy env) (Ncrop a)) (\<lambda>(gt, pred).
          draw_confusion_matrix gt pred [''Angry'', ''Happy'', ''Sad'', ''Neutral'']
            ''Confusion Matrix on Test Set''
            (Some ''Confusion Matrix on Test Set.png'') 300)))))) = (rest1', Inr u)"
    and rest1: "rest1 = [Clf] @ rest1'"
    by (rule emit_then)
  from body2 obtain t2 r2 d2 u2 rest2 where
    e2: "evaluate (tensor_topk env) (run_model env m') vl (cross_entropy env) (Ncrop a) = (t2, Inr r2)"
    and g2: "draw_confusion_matrix (fst r2) (snd r2) [''Angry'', ''Happy'', ''Sad'', ''Neutral'']
               ''Confusion Matrix on Val Set''
               (Some ''Confusion Matrix on Val Set.png'') 300 = (d2, Inr u2)"
    and k2: "bind_res (emit [Clf]) (\<lambda>_.
          bind_res (emit [Print ''Test'']) (\<lambda>_.
          bind_res (evaluate (tensor_topk env) (run_model env m') te (cross_entropy env) (Ncrop a)) (\<lambda>(gt, pred).
          draw_confusion_matrix gt pred [''Angry'', ''Happy'', ''Sad'', ''Neutral'']
            ''Confusion Matrix on Test Set''
            (Some ''Confusion Matrix on Test Set.png'') 300))) = (rest2, Inr u)"
    and tr2: "rest1' = [Print ''Val''] @ t2 @ d2 @ rest2"
    by (rule split_segment)
  from k2 obtain rest2' where body3: "bind_res (emit [Print ''Test'']) (\<lambda>_.
          bind_res (evaluate (tensor_topk env) (run_model env m') te (cross_entropy env) (Ncrop a)) (\<lambda>(gt, pred).
          draw_confusion_matrix gt pred [''Angry'', ''Happy'', ''Sad'', ''Neutral'']
            ''Confusion Matrix on Test Set''
            (Some ''Confusion Matrix on Test Set.png'') 300)) = (rest2', Inr u)"
    and rest2: "rest2 = [Clf] @ rest2'"
    by (rule emit_then)
  from body3 obtain t3 r3 d3 where
    e3: "evaluate (tensor_topk env) (run_model env m') te (cross_entropy env) (Ncrop a) = (t3, Inr r3)"
    and g3: "draw_confusion_matrix (fst r3) (snd r3) [''Angry'', ''Happy'', ''Sad'', ''Neutral'']
               ''Confusion Matrix on Test Set''
               (Some ''Confusion Matrix on Test Set.png'') 300 = (d3, Inr u)"
    and tr3: "rest2' = [Print ''Test''] @ t3 @ d3"
    by (rule last_segment)
  have tr: "tr = [Print (show_model env m)] @ [Print ''Train''] @ t1 @ d1 @ [Clf]
                  @ [Print ''Val''] @ t2 @ d2 @ [Clf] @ [Print ''Test''] @ t3 @ d3"
    by (simp add: tr0 tr1 rest1 tr2 rest2 tr3)
  from draw_milestones [OF g1] obtain cm1 where c1: "confusion_matrix_true (fst r1) (snd r1) = Inr cm1"
    "milestones d1 = [Imshow cm1 ''Blues'', Savefig ''Confusion Matrix on Training Set.png'' 300]"
    by blast
  from draw_milestones [OF g2] obtain cm2 where c2: "confusion_matrix_true (fst r2) (snd r2) = Inr cm2"
    "milestones d2 = [Imshow cm2 ''Blues'', Savefig ''Confusion Matrix on Val Set.png'' 300]"
    by blast
  from draw_milestones [OF g3] obtain cm3 where c3: "confusion_matrix_true (fst r3) (snd r3) = Inr cm3"
    "milestones d3 = [Imshow cm3 ''Blues'', Savefig ''Confusion Matrix on Test Set.png'' 300]"
    by blast
  have ms: "milestones tr =
             [Print (show_model env m),
              Print ''Train'', Print separator, Imshow cm1 ''Blues'',
              Savefig ''Confusion Matrix on Training Set.png'' 300, Clf,
              Print ''Val'', Print separator, Imshow cm2 ''Blues'',
              Savefig ''Confusion Matrix on Val Set.png'' 300, Clf,
              Print ''Test'', Print separator, Imshow cm3 ''Blues'',
              Savefig ''Confusion Matrix on Test Set.png'' 300]"
    unfolding tr milestones_append
    by (simp add: evaluate_milestones [OF e1] evaluate_milestones [OF e2]
          evaluate_milestones [OF e3] c1(2) c2(2) c3(2))
       (simp add: milestones_def)
  have s1: "snd (evaluate (tensor_topk env) (run_model env m') tl (cross_entropy env) (Ncrop a)) = Inr r1"
    and s2: "snd (evaluate (tensor_topk env) (run_model env m') vl (cross_entropy env) (Ncrop a)) = Inr r2"
    and s3: "snd (evaluate (tensor_topk env) (run_model env m') te (cross_entropy env) (Ncrop a)) = Inr r3"
    by (simp_all only: e1 e2 e3 snd_conv)
  show ?thesis
    apply (rule exI [of _ m], rule exI [of _ m'], rule exI [of _ tl], rule exI [of _ vl])
    apply (rule exI [of _ te], rule exI [of _ r1], rule exI [of _ r2], rule exI [of _ r3])
    apply (rule exI [of _ cm1], rule exI [of _ cm2], rule exI [of _ cm3])
    apply (intro conjI)
           apply (rule dl)
          apply (rule s1)
         apply (rule s2)
        apply (rule s3)
       apply (rule c1(1))
      apply (rule c2(1))
     apply (rule c3(1))
    apply (rule ms)
    done
qed


lemma onehot_run: "snd (main default_args (demo_env onehot_loader)) = Inr ()"
  by code_simp

lemma onehot_milestones:
  "milestones (fst (main default_args (demo_env onehot_loader))) =
     [Print ''ResNet18'',
      Print ''Train'', Print separator,
      Imshow [[1, 0, 0, 0], [0, 1, 0, 0], [0, 0, 1, 0], [0, 0, 0, 1]] ''Blues'',
      Savefig ''Confusion Matrix on Training Set.png'' 300, Clf,
      Print ''Val'', Print separator,
      Imshow [[1, 0, 0, 0], [0, 1, 0, 0], [0, 0, 1, 0], [0, 0, 0, 1]] ''Blues'',
      Savefig ''Confusion Matrix on Val Set.png'' 300, Clf,
      Print ''Test'', Print separator,
      Imshow [[1, 0, 0, 0], [0, 1, 0, 0], [0, 0, 1, 0], [0, 0, 0, 1]] ''Blues'',
      Savefig ''Confusion Matrix on Test Set.png'' 300]"
  by code_simp

theorem main_milestones_witness:
  "main default_args (demo_env onehot_loader)
     = (fst (main default_args (demo_env onehot_loader)), Inr ()) \<and>
   milestones (fst (main default_args (demo_env onehot_loader))) =
     [Print ''ResNet18'',
      Print ''Train'', Print separator,
      Imshow [[1, 0, 0, 0], [0, 1, 0, 0], [0, 0, 1, 0], [0, 0, 0, 1]] ''Blues'',
      Savefig ''Confusion Matrix on Training Set.png'' 300, Clf,
      Print ''Val'', Print separator,
      Imshow [[1, 0, 0, 0], [0, 1, 0, 0], [0, 0, 1, 0], [0, 0, 0, 1]] ''Blues'',
      Savefig ''Confusion Matrix on Val Set.png'' 300, Clf,
      Print ''Test'', Print separator,
      Imshow [[1, 0, 0, 0], [0, 1, 0, 0], [0, 0, 1, 0], [0, 0, 0, 1]] ''Blues'',
      Savefig ''Confusion Matrix on Test Set.png'' 300] \<and>
   (\<exists>m cm1 cm2 cm3. milestones (fst (main default_args (demo_env onehot_loader))) =
     [Print (show_model (demo_env onehot_loader) m),
      Print ''Train'', Print separator, Imshow cm1 ''Blues'',
      Savefig ''Confusion Matrix on Training Set.png'' 300, Clf,
      Print ''Val'', Print separator, Imshow cm2 ''Blues'',
      Savefig ''Confusion Matrix on Val Set.png'' 300, Clf,
      Print ''Test'', Print separator, Imshow cm3 ''Blues'',
      Savefig ''Confusion Matrix on Test Set.png'' 300])"
proof -
  have h: "main default_args (demo_env onehot_loader)
     = (fst (main default_args (demo_env onehot_loader)), Inr ())"
    using onehot_run by (simp add: prod_eq_iff)
  from main_milestones [OF h] have "\<exists>m cm1 cm2 cm3.
     milestones (fst (main default_args (demo_env onehot_loader))) =
     [Print (show_model (demo_env onehot_loader) m),
      Print ''Train'', Print separator, Imshow cm1 ''Blues'',
      Savefig ''Confusion Matrix on Training Set.png'' 300, Clf,
      Print ''Val'', Print separator, Imshow cm2 ''Blues'',
      Savefig ''Confusion Matrix on Val Set.png'' 300, Clf,
      Print ''Test'', Print separator, Imshow cm3 ''Blues'',
      Savefig ''Confusion Matrix on Test Set.png'' 300]"
    by (elim exE conjE) (intro exI, assumption)
  with h onehot_milestones show ?thesis by (intro conjI)
qed

subsection \<open>The row-normalised confusion matrix\<close>

lemma sum_list_indicator:
  "distinct ls \<Longrightarrow>
   sum_list (map (\<lambda>b. if P \<and> p = b then (1::nat) else 0) ls) = (if P \<and> p \<in> set ls then 1 else 0)"
  by (induction ls) auto

lemma count_row_sum:
  assumes "distinct ls" and "snd ` set zs \<subseteq> set ls"
  shows "sum_list (map (\<lambda>b. length (filter (\<lambda>(t, p). t = a \<and> p = b) zs)) ls)
         = length (filter (\<lambda>(t, p). t = a) zs)"
  using assms(2)
proof (induction zs)
  case Nil
  then show ?case by simp
next
  case (Cons z zs)
  obtain t p where z: "z = (t, p)" by (cases z)
  from Cons.prems have p: "p \<in> set ls" and rest: "snd ` set zs \<subseteq> set ls"
    by (auto simp: z)
  have "sum_list (map (\<lambda>b. length (filter (\<lambda>(t, p). t = a \<and> p = b) (z # zs))) ls)
      = sum_list (map (\<lambda>b. (if t = a \<and> p = b then 1 else 0)
                         + length (filter (\<lambda>(t, p). t = a \<and> p = b) zs)) ls)"
    by (intro arg_cong [where f = sum_list] map_cong refl) (simp add: z)
  also have "\<dots> = sum_list (map (\<lambda>b. if t = a \<and> p = b then 1 else 0) ls)
                  + sum_list (map (\<lambda>b. length (filter (\<lambda>(t, p). t = a \<and> p = b) zs)) ls)"
    by (rule sum_list_addf)
  also have "\<dots> = (if t = a then 1 else 0) + length (filter (\<lambda>(t, p). t = a) zs)"
    using sum_list_indicator [OF assms(1), of "t = a" p] p Cons.IH [OF rest] by simp
  also have "\<dots> = length (filter (\<lambda>(t, p). t = a) (z # zs))" by (simp add: z)
  finally show ?case .
qed

lemma sum_list_divide:
  "sum_list (map (\<lambda>c. real c / k) row) = real (sum_list row) / k"
  by (induction row) (simp_all add: add_divide_distrib)

lemma normalize_row_sum:
  assumes "0 < sum_list row"
  shows "sum_list (normalize_row row) = 1"
proof -
  define s where "s = sum_list row"
  have pos: "0 < s" using assms by (simp only: s_def)
  have "normalize_row row = map (\<lambda>c. real c / real s) row"
    using assms by (simp add: normalize_row_def s_def)
  then have "sum_list (normalize_row row) = real s / real s"
    by (simp only: sum_list_divide s_def)
  also have "\<dots> = 1" using pos by simp
  finally show ?thesis .
qed

lemma normalize_row_zero:
  assumes "\<forall>c\<in>set row. c = 0"
  shows "normalize_row row = replicate (length row) 0"
proof -
  have "sum_list row = 0" using assms by (induction row) auto
  then show ?thesis by (simp add: normalize_row_def map_replicate_const)
qed

lemma unique_labels_props:
  "distinct (unique_labels yt yp)" "set (unique_labels yt yp) = set yt \<union> set yp"
  by (simp_all add: unique_labels_def)

lemma true_class_count_pos:
  assumes "a \<in> set yt" and "length yt = length yp"
  shows "0 < length (filter (\<lambda>(t, p). t = a) (zip yt yp))"
proof -
  from assms(1) obtain i where i: "i < length yt" "yt ! i = a"
    by (auto simp: in_set_conv_nth)
  then have "(a, yp ! i) \<in> set (zip yt yp)" using assms(2)
    by (auto simp: set_zip)
  then have "(a, yp ! i) \<in> set (filter (\<lambda>(t, p). t = a) (zip yt yp))" by simp
  then show ?thesis by (rule length_pos_if_in_set)
qed

lemma draw_cells_ok:
  assumes "\<forall>(i, j)\<in>set ps. j < length cm \<and> i < length (cm ! j)"
  shows "\<exists>tr. draw_cells cm ps = (tr, Inr ())"
  using assms
proof (induction ps)
  case Nil
  then show ?case by simp
next
  case (Cons p ps)
  obtain i j where p: "p = (i, j)" by (cases p)
  from Cons.prems have ok: "j < length cm \<and> i < length (cm ! j)"
    and rest: "\<forall>(i, j)\<in>set ps. j < length cm \<and> i < length (cm ! j)"
    by (auto simp: p)
  from Cons.IH [OF rest] obtain tr where "draw_cells cm ps = (tr, Inr ())" ..
  then show ?case using ok
    by (simp add: p cm_index_def bind_res_lift_Inr bind_res_emit)
qed


lemma confusion_matrix_true_eq:
  assumes "length yt = length yp"
  shows "confusion_matrix_true yt yp =
     Inr (map (\<lambda>a. normalize_row
            (map (\<lambda>b. length (filter (\<lambda>(t, p). t = a \<and> p = b) (zip yt yp)))
               (unique_labels yt yp))) (unique_labels yt yp))"
  using assms by (simp add: confusion_matrix_true_def confusion_counts_def bind_err_def Let_def comp_def)

lemma normalize_row_length: "length (normalize_row row) = length row"
  by (simp add: normalize_row_def)

text \<open>
  Claim C6, as the code has it. For label sequences of equal length the matrix of the
  renderer has one row and one column per label that occurs among the true or the
  predicted labels, in ascending order. The row of a class with at least one sample
  sums to one; the row of a class that occurs only among the predictions is filled with
  zeros by the matrix construction, so that no undefined quotient reaches the drawing
  loop. The renderer has no handling of its own for absent classes: it draws the
  cells \<open>(i, j)\<close> for \<open>i, j\<close> below the number of class names, and it completes and
  saves the figure when the matrix has at least that many rows.
\<close>

theorem confusion_rows:
  assumes len: "length yt = length yp"
  shows "\<exists>cm. confusion_matrix_true yt yp = Inr cm \<and>
           length cm = length (unique_labels yt yp) \<and>
           (\<forall>i<length (unique_labels yt yp).
              length (cm ! i) = length (unique_labels yt yp) \<and>
              (unique_labels yt yp ! i \<in> set yt \<longrightarrow> sum_list (cm ! i) = 1) \<and>
              (unique_labels yt yp ! i \<notin> set yt
                 \<longrightarrow> cm ! i = replicate (length (unique_labels yt yp)) 0)) \<and>
           (length names \<le> length (unique_labels yt yp) \<longrightarrow>
              (\<exists>tr. draw_confusion_matrix yt yp names title (Some path) dpi
                      = (tr @ [Savefig path dpi], Inr ())))"
proof -
  let ?ls = "unique_labels yt yp"
  let ?row = "\<lambda>a. map (\<lambda>b. length (filter (\<lambda>(t, p). t = a \<and> p = b) (zip yt yp))) ?ls"
  let ?cm = "map (\<lambda>a. normalize_row (?row a)) ?ls"
  have cm: "confusion_matrix_true yt yp = Inr ?cm" by (rule confusion_matrix_true_eq [OF len])
  have lcm: "length ?cm = length ?ls" by simp
  have sub: "snd ` set (zip yt yp) \<subseteq> set ?ls"
    by (auto simp: unique_labels_props dest: set_zip_rightD)
  have rows: "length (?cm ! i) = length ?ls \<and>
              (?ls ! i \<in> set yt \<longrightarrow> sum_list (?cm ! i) = 1) \<and>
              (?ls ! i \<notin> set yt \<longrightarrow> ?cm ! i = replicate (length ?ls) 0)"
    if i: "i < length ?ls" for i
  proof -
    have ri: "?cm ! i = normalize_row (?row (?ls ! i))" using i by simp
    have l: "length (?cm ! i) = length ?ls" by (simp add: ri normalize_row_length)
    have one: "sum_list (?cm ! i) = 1" if "?ls ! i \<in> set yt"
    proof -
      have "sum_list (?row (?ls ! i)) = length (filter (\<lambda>(t, p). t = ?ls ! i) (zip yt yp))"
        by (rule count_row_sum [OF unique_labels_props(1) sub])
      also have "0 < \<dots>" by (rule true_class_count_pos [OF that len])
      finally show ?thesis by (simp only: ri normalize_row_sum)
    qed
    have zero: "?cm ! i = replicate (length ?ls) 0" if "?ls ! i \<notin> set yt"
    proof -
      have "\<forall>c\<in>set (?row (?ls ! i)). c = 0"
        using that by (auto simp: filter_empty_conv dest: set_zip_leftD)
      from normalize_row_zero [OF this] show ?thesis by (simp add: ri)
    qed
    from l one zero show ?thesis by blast
  qed
  have draw: "\<exists>tr. draw_confusion_matrix yt yp names title (Some path) dpi
                      = (tr @ [Savefig path dpi], Inr ())"
    if n: "length names \<le> length ?ls"
  proof -
    have "\<forall>(i, j)\<in>set (cells (length names)). j < length ?cm \<and> i < length (?cm ! j)"
    proof (intro ballI, clarify)
      fix i j assume "(i, j) \<in> set (cells (length names))"
      then have "i < length names" "j < length names" by (auto simp: cells_def)
      with n have "i < length ?ls" "j < length ?ls" by simp_all
      with rows [of j] show "j < length ?cm \<and> i < length (?cm ! j)" by simp
    qed
    from draw_cells_ok [OF this] obtain tc
      where "draw_cells ?cm (cells (length names)) = (tc, Inr ())" ..
    then have "draw_confusion_matrix yt yp names title (Some path) dpi
        = (([Imshow ?cm ''Blues'', Title title, Xlabel ''Predict label'',
             Ylabel ''Truth label'', Yticks [0..<length names] names,
             Xticks [0..<length names] names 45, TightLayout, Colorbar] @ tc)
            @ [Savefig path dpi], Inr ())"
      by (simp add: draw_confusion_matrix_def cm bind_res_def lift_err_def emit_def)
    then show ?thesis by (rule exI)
  qed
  from cm lcm rows draw show ?thesis by blast
qed


theorem confusion_rows_witness:
  "length [0, 0 :: int] = length [1, 1 :: int] \<and>
   unique_labels [0, 0] [1, 1] = [0, 1] \<and>
   confusion_matrix_true [0, 0] [1, 1] = Inr [[0, 1], [0, 0]] \<and>
   sum_list ([[0, 1], [0, 0 :: real]] ! 0) = 1 \<and>
   [[0, 1], [0, 0 :: real]] ! 1 = replicate 2 0 \<and>
   (\<exists>tr. draw_confusion_matrix [0, 0] [1, 1] [''Angry'', ''Happy'']
            ''Confusion Matrix'' (Some ''cm.png'') 300 = (tr @ [Savefig ''cm.png'' 300], Inr ()))"
proof -
  have h: "length [0, 0 :: int] = length [1, 1 :: int]" by simp
  have ul: "unique_labels [0, 0] [1, 1] = [0, 1]" by code_simp
  have cmv: "confusion_matrix_true [0, 0] [1, 1] = Inr [[0, 1], [0, 0]]" by code_simp
  from confusion_rows [OF h, of "[''Angry'', ''Happy'']" "''Confusion Matrix''" "''cm.png''" 300]
  obtain cm where c: "confusion_matrix_true [0, 0] [1, 1] = Inr cm"
    and r: "\<forall>i<length (unique_labels [0, 0] [1, 1]).
              length (cm ! i) = length (unique_labels [0, 0] [1, 1]) \<and>
              (unique_labels [0, 0] [1, 1] ! i \<in> set [0, 0] \<longrightarrow> sum_list (cm ! i) = 1) \<and>
              (unique_labels [0, 0] [1, 1] ! i \<notin> set [0, 0]
                 \<longrightarrow> cm ! i = replicate (length (unique_labels [0, 0] [1, 1])) 0)"
    and d: "length [''Angry'', ''Happy''] \<le> length (unique_labels [0, 0] [1, 1]) \<longrightarrow>
              (\<exists>tr. draw_confusion_matrix [0, 0] [1, 1] [''Angry'', ''Happy'']
                 ''Confusion Matrix'' (Some ''cm.png'') 300 = (tr @ [Savefig ''cm.png'' 300], Inr ()))"
    by blast
  from c cmv have cm: "cm = [[0, 1], [0, 0]]" by simp
  from r [rule_format, of 0] have r0: "sum_list ([[0, 1], [0, 0 :: real]] ! 0) = 1"
    by (simp add: ul cm)
  from r [rule_format, of 1] have r1: "[[0, 1], [0, 0 :: real]] ! 1 = replicate 2 0"
    by (simp add: ul cm numeral_2_eq_2)
  from d have dr: "\<exists>tr. draw_confusion_matrix [0, 0] [1, 1] [''Angry'', ''Happy'']
                 ''Confusion Matrix'' (Some ''cm.png'') 300 = (tr @ [Savefig ''cm.png'' 300], Inr ())"
    by (simp add: ul)
  from h ul cmv r0 r1 dr show ?thesis by (intro conjI)
qed

text \<open>
  The renderer on a split in which two of the four named classes occur neither as a
  label nor as a prediction: the matrix has two rows, the cell \<open>cm[2, 0]\<close> does not
  exist, and the call ends in an IndexError before any figure is saved. The rows of the
  absent classes are neither skipped nor filled with zeros.
\<close>

theorem renderer_absent_class_fails:
  "draw_confusion_matrix [0, 0] [1, 1] [''Angry'', ''Happy'', ''Sad'', ''Neutral'']
     ''Confusion Matrix on Test Set'' (Some ''Confusion Matrix on Test Set.png'') 300
   = ([Imshow [[0, 1], [0, 0]] ''Blues'', Title ''Confusion Matrix on Test Set'',
       Xlabel ''Predict label'', Ylabel ''Truth label'',
       Yticks [0, 1, 2, 3] [''Angry'', ''Happy'', ''Sad'', ''Neutral''],
       Xticks [0, 1, 2, 3] [''Angry'', ''Happy'', ''Sad'', ''Neutral''] 45,
       TightLayout, Colorbar,
       PlotText 0 0 0 (1, 1, 1), PlotText 0 1 0 (0, 0, 0)],
      Inl IndexError)"
  by code_simp

text \<open>The same through \<open>main\<close>, on splits that hold two classes only.\<close>

lemma main_absent_class_fails:
  "snd (main default_args (demo_env crop_loader)) = Inl IndexError"
  by code_simp

end
